theory Spec2Isabelle
  imports Complex_Main "HOL-Library.Sublist" "HOL-Library.AList"
begin

section \<open>Python strings\<close>

text \<open>
  A Python \<open>str\<close> is a sequence of code points and \<open>len\<close> counts them. The model
  uses \<^typ>\<open>string\<close>, one \<^typ>\<open>char\<close> per code point, which covers the code points
  U+0000 to U+00FF. Numbers that are Python floats (scores, timestamps) are modelled as
  \<^typ>\<open>real\<close>: exact arithmetic, without the rounding of IEEE doubles.
\<close>

abbreviation NL :: char where
  "NL \<equiv> CHR 0x0A"

definition isspace :: "char \<Rightarrow> bool" where
  \<comment> \<open>\<open>str.isspace\<close> on one code point below 256: TAB..CR, FS..US, space, NEL, NBSP.\<close>
  "isspace c = (let n = (of_char c :: nat)
                in (9 \<le> n \<and> n \<le> 13) \<or> (28 \<le> n \<and> n \<le> 32) \<or> n = 133 \<or> n = 160)"

definition strip :: "string \<Rightarrow> string" where
  \<comment> \<open>\<open>s.strip()\<close>: whitespace removed at both ends.\<close>
  "strip s = rev (dropWhile isspace (rev (dropWhile isspace s)))"

fun split_nn :: "string \<Rightarrow> string \<Rightarrow> string list" where
  \<comment> \<open>\<open>s.split('\n\n')\<close>, scanning left to right; the first argument holds the
      characters of the current piece, latest first.\<close>
  "split_nn cur (a # b # cs) =
     (if a = NL \<and> b = NL then rev cur # split_nn [] cs else split_nn (a # cur) (b # cs))"
| "split_nn cur [a] = [rev (a # cur)]"
| "split_nn cur [] = [rev cur]"

definition is_terminator :: "char \<Rightarrow> bool" where
  "is_terminator c = (c = CHR ''.'' \<or> c = CHR ''!'' \<or> c = CHR ''?'')"

function re_split_terminators :: "string \<Rightarrow> string \<Rightarrow> string list" where
  \<comment> \<open>\<open>re.split(r'[.!?]+', s)\<close>: a maximal run of terminators is one separator.\<close>
  "re_split_terminators cur [] = [rev cur]"
| "re_split_terminators cur (c # cs) =
     (if is_terminator c then rev cur # re_split_terminators [] (dropWhile is_terminator cs)
      else re_split_terminators (c # cur) cs)"
  by pat_completeness auto
termination
  by (relation "measure (\<lambda>(cur, s). length s)")
     (auto simp: less_Suc_eq_le length_dropWhile_le)

definition join_nn :: "string list \<Rightarrow> string" where
  \<comment> \<open>\<open>'\n\n'.join(parts)\<close>\<close>
  "join_nn parts = (case parts of [] \<Rightarrow> [] | p # ps \<Rightarrow> foldl (\<lambda>acc q. acc @ [NL, NL] @ q) p ps)"

section \<open>DocumentProcessor.smart_chunk_text\<close>

record document_processor =
  chunk_size :: int
  chunk_overlap :: int

text \<open>
  The loop state of \<open>smart_chunk_text\<close> is the pair \<open>(chunks, current_chunk)\<close>.
  \<open>flush\<close> is the repeated \<open>if current_chunk: chunks.append(current_chunk.strip())\<close>.
\<close>

definition flush :: "string list \<Rightarrow> string \<Rightarrow> string list" where
  "flush chunks current = (if current \<noteq> [] then chunks @ [strip current] else chunks)"

fun add_sentence :: "int \<Rightarrow> string list \<times> string \<Rightarrow> string \<Rightarrow> string list \<times> string" where
  \<comment> \<open>body of \<open>for sentence in sentences\<close>\<close>
  "add_sentence max_size (chunks, current) raw =
     (let sentence = strip raw in
      if sentence = [] then (chunks, current)
      else if int (length current) + int (length sentence) > max_size
        then (flush chunks current, sentence)
        else (chunks, if current \<noteq> [] then current @ '' '' @ sentence else sentence))"

fun add_paragraph :: "int \<Rightarrow> string list \<times> string \<Rightarrow> string \<Rightarrow> string list \<times> string" where
  \<comment> \<open>body of \<open>for paragraph in paragraphs\<close>\<close>
  "add_paragraph max_size (chunks, current) paragraph =
     (if int (length paragraph) > max_size
        then foldl (add_sentence max_size) (chunks, current) (re_split_terminators [] paragraph)
      else if int (length current) + int (length paragraph) > max_size
        then (flush chunks current, paragraph)
        else (chunks, if current \<noteq> [] then current @ [NL, NL] @ paragraph else paragraph))"

definition smart_chunk_text :: "document_processor \<Rightarrow> string \<Rightarrow> int option \<Rightarrow> string list" where
  "smart_chunk_text self text size_arg =
     (let max_size = (case size_arg of None \<Rightarrow> chunk_size self | Some n \<Rightarrow> n);
          paragraphs = split_nn [] text;
          (chunks, current) = foldl (add_paragraph max_size) ([], []) paragraphs
      in filter (\<lambda>chunk. strip chunk \<noteq> []) (flush chunks current))"

section \<open>Temporal score\<close>

definition temporal_band :: "real \<Rightarrow> real" where
  \<comment> \<open>the \<open>if age_days <= 30 ... else\<close> chain shared by both variants\<close>
  "temporal_band age_days =
     (if age_days \<le> 30 then 1.0
      else if age_days \<le> 90 then 0.8
      else if age_days \<le> 365 then 0.6
      else if age_days \<le> 730 then 0.4
      else 0.2)"

definition calculate_temporal_score :: "real \<Rightarrow> real \<Rightarrow> real option \<Rightarrow> real" where
  \<comment> \<open>\<open>EnhancedVectorDatabase._calculate_temporal_score\<close>. \<open>t0\<close> and \<open>t1\<close> are the two
      readings of \<open>time.time()\<close>, the third argument is the entry's \<open>created_at\<close>
      (\<open>None\<close> when the key is missing).\<close>
  "calculate_temporal_score t0 t1 created =
     (let created_at = (case created of None \<Rightarrow> t0 | Some c \<Rightarrow> c);
          current_time = t1;
          age_days = (current_time - created_at) / (24 * 3600)
      in temporal_band age_days)"

definition es_calculate_temporal_score :: "real \<Rightarrow> real \<Rightarrow> real option \<Rightarrow> real" where
  \<comment> \<open>\<open>ElasticsearchVectorDatabase._calculate_temporal_score\<close>: \<open>created_at\<close> is stored
      in milliseconds.\<close>
  "es_calculate_temporal_score t0 t1 created =
     (let created_at = (case created of None \<Rightarrow> t0 * 1000 | Some c \<Rightarrow> c) / 1000;
          current_time = t1;
          age_days = (current_time - created_at) / (24 * 3600)
      in temporal_band age_days)"

section \<open>More Python helpers\<close>

datatype py_error = ValueError | AssertionError | ConnectionError

definition py_take :: "int \<Rightarrow> 'a list \<Rightarrow> 'a list" where
  \<comment> \<open>the slice \<open>xs[:k]\<close>; a negative \<open>k\<close> counts from the end\<close>
  "py_take k xs = (if 0 \<le> k then take (nat k) xs else take (length xs - nat (- k)) xs)"

definition lower_char :: "char \<Rightarrow> char" where
  \<comment> \<open>\<open>str.lower\<close> on one code point below 256: A..Z and the Latin-1 capitals
      U+00C0..U+00DE (without the multiplication sign U+00D7) move up by 32.\<close>
  "lower_char c = (let n = (of_char c :: nat)
                   in if (65 \<le> n \<and> n \<le> 90) \<or> (192 \<le> n \<and> n \<le> 222 \<and> n \<noteq> 215)
                      then char_of (n + 32) else c)"

definition lower :: "string \<Rightarrow> string" where
  "lower s = map lower_char s"

fun split_ws :: "string \<Rightarrow> string \<Rightarrow> string list" where
  \<comment> \<open>\<open>s.split()\<close>: the maximal runs of non-whitespace characters\<close>
  "split_ws cur [] = (if cur = [] then [] else [rev cur])"
| "split_ws cur (c # cs) =
     (if isspace c then (if cur = [] then split_ws [] cs else rev cur # split_ws [] cs)
      else split_ws (c # cur) cs)"

fun digits10 :: "nat \<Rightarrow> string" where
  \<comment> \<open>decimal digits of a natural number\<close>
  "digits10 n = (if n < 10 then [char_of (48 + n)]
                 else digits10 (n div 10) @ [char_of (48 + n mod 10)])"

declare digits10.simps [simp del]

definition fmt04 :: "nat \<Rightarrow> string" where
  \<comment> \<open>the format \<open>{i:04d}\<close>\<close>
  "fmt04 i = (let d = digits10 i in replicate (4 - length d) (CHR ''0'') @ d)"

section \<open>EnhancedEmbeddingManager\<close>

text \<open>
  An embedding vector is a list of numbers. The SentenceTransformer model, the SHA-256
  digest and numpy's global random generator are libraries outside the repository:
  \<^item> \<open>model\<close> is \<open>None\<close> when SentenceTransformers is not installed, else the model's
    \<open>encode\<close> on one text; \<open>encode\<close> on a list of texts is taken to be \<open>encode\<close> on
    each of them;
  \<^item> \<open>sha\<close>, an argument of the functions that hash, is \<open>hashlib.sha256(..).hexdigest()\<close>;
  \<^item> \<open>rng\<close> is the sequence of numbers that \<open>np.random.random\<close> will draw and
    \<open>rng_pos\<close> the number drawn so far.
  \<open>model_calls\<close> is a ghost counter of the calls to \<open>self.model.encode\<close>; no code
  reads it.
\<close>

type_synonym vec = "real list"

record embedding_manager =
  model :: "(string \<Rightarrow> vec) option"
  embedding_dim :: nat
  embedding_cache :: "string \<rightharpoonup> vec"
  rng :: "nat \<Rightarrow> real"
  rng_pos :: nat
  model_calls :: nat

definition get_text_hash :: "(string \<Rightarrow> string) \<Rightarrow> string \<Rightarrow> string" where
  "get_text_hash sha text = take 16 (sha text)"

definition np_random :: "embedding_manager \<Rightarrow> vec \<times> embedding_manager" where
  \<comment> \<open>\<open>np.random.random(self.embedding_dim)\<close>\<close>
  "np_random self =
     (map (rng self) [rng_pos self ..< rng_pos self + embedding_dim self],
      self\<lparr>rng_pos := rng_pos self + embedding_dim self\<rparr>)"

definition embed_text ::
  "(string \<Rightarrow> string) \<Rightarrow> embedding_manager \<Rightarrow> string \<Rightarrow> bool \<Rightarrow> vec \<times> embedding_manager" where
  "embed_text sha self text use_cache =
     (case model self of
        None \<Rightarrow> np_random self
      | Some encode \<Rightarrow>
          (let text_hash = get_text_hash sha text in
           case (if use_cache then embedding_cache self text_hash else None) of
             Some cached \<Rightarrow> (cached, self)
           | None \<Rightarrow>
               (let embedding = encode text;
                    self1 = self\<lparr>model_calls := model_calls self + 1\<rparr>
                in if use_cache
                   then (embedding,
                         self1\<lparr>embedding_cache := (embedding_cache self1)(text_hash \<mapsto> embedding)\<rparr>)
                   else (embedding, self1))))"

fun np_random_each :: "embedding_manager \<Rightarrow> 'a list \<Rightarrow> vec list \<times> embedding_manager" where
  \<comment> \<open>\<open>[np.random.random(self.embedding_dim) for _ in texts]\<close>\<close>
  "np_random_each self [] = ([], self)"
| "np_random_each self (t # ts) =
     (let (v, self1) = np_random self; (vs, self2) = np_random_each self1 ts
      in (v # vs, self2))"

function batches :: "nat \<Rightarrow> 'a list \<Rightarrow> 'a list list" where
  \<comment> \<open>\<open>[texts[i:i + n] for i in range(0, len(texts), n)]\<close> for a positive step\<close>
  "batches n xs = (if n = 0 \<or> xs = [] then [] else take n xs # batches n (drop n xs))"
  by pat_completeness auto
termination
  by (relation "measure (\<lambda>(n, xs). length xs)") auto

declare batches.simps [simp del]

definition embed_batch ::
  "embedding_manager \<Rightarrow> string list \<Rightarrow> int \<Rightarrow> py_error + vec list \<times> embedding_manager" where
  \<comment> \<open>\<open>range(0, len(texts), batch_size)\<close> raises ValueError for a zero step and is
      empty for a negative one.\<close>
  "embed_batch self texts batch_size =
     (case model self of
        None \<Rightarrow> Inr (np_random_each self texts)
      | Some encode \<Rightarrow>
          if batch_size = 0 then Inl ValueError
          else if batch_size < 0 then Inr ([], self)
          else (let bs = batches (nat batch_size) texts
                in Inr (concat (map (map encode) bs),
                        self\<lparr>model_calls := model_calls self + length bs\<rparr>)))"

section \<open>Documents, chunks and retrieval results\<close>

text \<open>
  The dataclasses of \<open>rag/core.py\<close>. Field names carry a prefix per class, since a field
  name is a constant of the theory. A metadata dictionary is a record of the keys the
  code reads or writes; a list-valued key that is missing reads as the empty list, as
  \<open>metadata.get(key, [])\<close> does, and \<open>document_source_type\<close> is \<open>None\<close> when missing.
\<close>

record doc_metadata =
  dm_mitre_techniques :: "string list"
  dm_security_frameworks :: "string list"
  dm_cves :: "string list"

record document =
  d_id :: string
  d_title :: string
  d_content :: string
  d_source :: string
  d_source_type :: string
  d_metadata :: doc_metadata
  d_authority_score :: real
  d_created_at :: real
  d_last_updated :: real

record metadata =
  document_title :: string
  document_source_type :: "string option"
  md_chunk_size :: nat
  chunk_words :: nat
  position_in_document :: real
  mitre_techniques :: "string list"
  security_frameworks :: "string list"
  cves :: "string list"

record document_chunk =
  c_id :: string
  c_content :: string
  c_source :: string
  c_document_id :: string
  c_chunk_index :: nat
  c_metadata :: metadata
  c_embedding :: "vec option"
  c_created_at :: real

record retrieval_result =
  chunk :: document_chunk
  similarity_score :: real
  authority_score :: real
  temporal_score :: real
  combined_score :: real
  rank :: int

definition create_chunk :: "document \<Rightarrow> nat \<Rightarrow> real \<Rightarrow> nat \<times> string \<Rightarrow> document_chunk" where
  \<comment> \<open>body of the loop of \<open>create_chunks\<close>; \<open>n_chunks\<close> is \<open>len(text_chunks)\<close> and \<open>now\<close>
      the clock reading that \<open>DocumentChunk.__post_init__\<close> stores\<close>
  "create_chunk doc n_chunks now = (\<lambda>(i, chunk_text).
     \<lparr>c_id = d_id doc @ ''_chunk_'' @ fmt04 i,
      c_content = chunk_text,
      c_source = d_source doc,
      c_document_id = d_id doc,
      c_chunk_index = i,
      c_metadata =
        \<lparr>document_title = d_title doc,
         document_source_type = Some (d_source_type doc),
         md_chunk_size = length chunk_text,
         chunk_words = length (split_ws [] chunk_text),
         position_in_document = real i / real n_chunks,
         mitre_techniques = dm_mitre_techniques (d_metadata doc),
         security_frameworks = dm_security_frameworks (d_metadata doc),
         cves = dm_cves (d_metadata doc)\<rparr>,
      c_embedding = None,
      c_created_at = now\<rparr>)"

definition create_chunks :: "document_processor \<Rightarrow> document \<Rightarrow> real \<Rightarrow> document_chunk list" where
  "create_chunks self doc now =
     (let text_chunks = smart_chunk_text self (d_content doc) None
      in map (create_chunk doc (length text_chunks) now) (enumerate 0 text_chunks))"

section \<open>Scores and ranking\<close>

definition source_scores :: "string \<Rightarrow> real" where
  \<comment> \<open>\<open>source_scores.get(source_type, 0.5)\<close>\<close>
  "source_scores t =
     (if t = ''academic'' then 0.9 else if t = ''github'' then 0.7 else if t = ''cti'' then 0.8
      else if t = ''blog'' then 0.6 else if t = ''manual'' then 0.5 else 0.5)"

definition authority_signals :: "real \<Rightarrow> string option \<Rightarrow> string list \<Rightarrow> string list \<Rightarrow> string list \<Rightarrow> real" where
  \<comment> \<open>the body shared by the two \<open>_calculate_authority_score\<close>, from its initial score\<close>
  "authority_signals score0 source_type frameworks techniques cve_list =
     (let score1 = score0 + source_scores (case source_type of None \<Rightarrow> ''manual'' | Some t \<Rightarrow> t) * 0.4;
          score2 = (if ''MITRE_ATTACK'' \<in> set frameworks then score1 + 0.3 else score1);
          score3 = (if \<exists>fw \<in> set [''NIST'', ''OWASP'', ''CIS'']. fw \<in> set frameworks
                    then score2 + 0.2 else score2);
          score4 = (if techniques \<noteq> [] then score3 + min 0.2 (real (length techniques) * 0.05)
                    else score3);
          score5 = (if cve_list \<noteq> [] then score4 + min 0.1 (real (length cve_list) * 0.02)
                    else score4)
      in min 1.0 score5)"

definition calculate_authority_score :: "metadata \<Rightarrow> real" where
  \<comment> \<open>\<open>EnhancedVectorDatabase._calculate_authority_score\<close>, on the entry's \<open>metadata\<close>\<close>
  "calculate_authority_score md =
     authority_signals 0.0 (document_source_type md) (security_frameworks md)
       (mitre_techniques md) (cves md)"

definition sort_and_rank :: "int \<Rightarrow> retrieval_result list \<Rightarrow> retrieval_result list" where
  \<comment> \<open>\<open>results.sort(key=lambda x: x.combined_score, reverse=True)\<close>, the ranks set on
      \<open>results[:top_k]\<close>, and \<open>results[:top_k]\<close> returned. Python's sort is stable, also
      with \<open>reverse=True\<close>; so is \<open>sort_key\<close> on the negated score.\<close>
  "sort_and_rank top_k results =
     (let sorted_results = sort_key (\<lambda>x. - combined_score x) results
      in map (\<lambda>(i, result). result\<lparr>rank := int i + 1\<rparr>) (enumerate 0 (py_take top_k sorted_results)))"

section \<open>EnhancedVectorDatabase (local variant)\<close>

text \<open>
  The FAISS index is a library object: its dimension and the vectors added so far.
  \<open>index.add\<close> asserts the dimension of the vector. \<open>index.search(x, k)\<close> asserts the
  dimension of the query and \<open>k > 0\<close>; \<open>search_similar_chunks\<close> calls it outside any
  \<open>try\<close>, so its AssertionError leaves \<open>search_similar_chunks\<close>, whose result is
  therefore an exception or a list, together with the database after the call. Which
  neighbours an accepted search finds is not modelled: it is the argument
  \<open>faiss_search\<close>, a function of the index, the query vector and \<open>k\<close>, giving the pairs
  \<open>zip(scores[0], indices[0])\<close>.
  \<open>chunk_metadata\<close> and \<open>document_registry\<close> are dictionaries in insertion order; the key
  \<open>str(n)\<close> of \<open>chunk_metadata\<close> is modelled by the integer \<open>n\<close>.
  The metadata filter is an argument \<open>flt\<close>: \<open>None\<close> for no (or an empty) filter, else
  the predicate that \<open>_matches_filter(chunk_metadata, filter_metadata)\<close> computes on an
  entry. All readings of the clock during one call are one value \<open>now\<close>.
\<close>

record faiss_index =
  f_dim :: nat
  f_vectors :: "vec list"

definition faiss_add :: "faiss_index \<Rightarrow> vec \<Rightarrow> py_error + faiss_index" where
  "faiss_add ix v = (if length v = f_dim ix then Inr (ix\<lparr>f_vectors := f_vectors ix @ [v]\<rparr>)
                     else Inl AssertionError)"

definition faiss_index_search ::
  "(faiss_index \<Rightarrow> vec \<Rightarrow> int \<Rightarrow> (real \<times> int) list) \<Rightarrow> faiss_index \<Rightarrow> vec \<Rightarrow> int \<Rightarrow>
   py_error + (real \<times> int) list" where
  \<comment> \<open>\<open>index.search(query_2d, k)\<close> with its two assertions\<close>
  "faiss_index_search faiss_search ix q k =
     (if length q = f_dim ix \<and> 0 < k then Inr (faiss_search ix q k) else Inl AssertionError)"

record chunk_entry =
  m_chunk_id :: string
  m_content :: string
  m_source :: string
  m_document_id :: string
  m_chunk_index :: nat
  m_metadata :: metadata
  m_created_at :: real
  m_index_position :: int

record registry_entry =
  r_title :: string
  r_source :: string
  r_source_type :: string
  r_authority_score :: real
  r_created_at :: real
  r_last_updated :: real
  r_metadata :: doc_metadata

record vector_db =
  embedding_manager :: embedding_manager
  similarity_threshold :: real
  index :: "faiss_index option"
  chunk_metadata :: "(int \<times> chunk_entry) list"
  document_registry :: "(string \<times> registry_entry) list"
  next_index :: int

definition get_chunk_count :: "vector_db \<Rightarrow> nat" where
  "get_chunk_count self = length (chunk_metadata self)"

definition add_chunk_to_index :: "vector_db \<Rightarrow> document_chunk \<Rightarrow> vec \<Rightarrow> bool \<times> vector_db" where
  \<comment> \<open>an exception of \<open>index.add\<close> leaves the stored entry and the old \<open>next_index\<close>\<close>
  "add_chunk_to_index self c embedding =
     (let entry = \<lparr>m_chunk_id = c_id c, m_content = c_content c, m_source = c_source c,
                   m_document_id = c_document_id c, m_chunk_index = c_chunk_index c,
                   m_metadata = c_metadata c, m_created_at = c_created_at c,
                   m_index_position = next_index self\<rparr>;
          self1 = self\<lparr>chunk_metadata := AList.update (next_index self) entry (chunk_metadata self)\<rparr>
      in case index self1 of
           None \<Rightarrow> (True, self1\<lparr>next_index := next_index self1 + 1\<rparr>)
         | Some ix \<Rightarrow>
             (case faiss_add ix embedding of
                Inl e \<Rightarrow> (False, self1)
              | Inr ix1 \<Rightarrow> (True, self1\<lparr>index := Some ix1, next_index := next_index self1 + 1\<rparr>)))"

fun add_chunks :: "vector_db \<Rightarrow> (document_chunk \<times> vec) list \<Rightarrow> nat \<Rightarrow> nat \<times> vector_db" where
  \<comment> \<open>\<open>for chunk, embedding in zip(chunks, embeddings)\<close>, counting the successes\<close>
  "add_chunks self [] chunk_count = (chunk_count, self)"
| "add_chunks self ((c, embedding) # rest) chunk_count =
     (let (ok, self1) = add_chunk_to_index self c embedding
      in add_chunks self1 rest (if ok then chunk_count + 1 else chunk_count))"

definition add_document ::
  "vector_db \<Rightarrow> document \<Rightarrow> document_processor \<Rightarrow> real \<Rightarrow> py_error + nat \<times> vector_db" where
  "add_document self doc chunk_processor now =
     (let self1 = self\<lparr>document_registry :=
                    AList.update (d_id doc)
                      \<lparr>r_title = d_title doc, r_source = d_source doc,
                       r_source_type = d_source_type doc, r_authority_score = d_authority_score doc,
                       r_created_at = d_created_at doc, r_last_updated = d_last_updated doc,
                       r_metadata = d_metadata doc\<rparr> (document_registry self)\<rparr>;
          chunks = create_chunks chunk_processor doc now
      in if chunks = [] then Inr (0, self1)
         else case embed_batch (embedding_manager self1) (map c_content chunks) 32 of
                Inl e \<Rightarrow> Inl e
              | Inr (embeddings, em1) \<Rightarrow>
                  Inr (add_chunks (self1\<lparr>embedding_manager := em1\<rparr>) (zip chunks embeddings) 0))"

definition entry_chunk :: "chunk_entry \<Rightarrow> document_chunk" where
  \<comment> \<open>the \<open>DocumentChunk\<close> built from a stored entry\<close>
  "entry_chunk e =
     \<lparr>c_id = m_chunk_id e, c_content = m_content e, c_source = m_source e,
      c_document_id = m_document_id e, c_chunk_index = m_chunk_index e,
      c_metadata = m_metadata e, c_embedding = None, c_created_at = m_created_at e\<rparr>"

definition fallback_entry ::
  "string \<Rightarrow> (chunk_entry \<Rightarrow> bool) option \<Rightarrow> real \<Rightarrow> int \<times> chunk_entry \<Rightarrow> retrieval_result option" where
  \<comment> \<open>body of the loop of \<open>_fallback_search\<close>; \<open>None\<close> is \<open>continue\<close>\<close>
  "fallback_entry query_lower flt now = (\<lambda>(idx, e).
     (let content_lower = lower (m_content e);
          query_words = set (split_ws [] query_lower);
          content_words = set (split_ws [] content_lower)
      in if card query_words = 0 then None
         else (let similarity = real (card (query_words \<inter> content_words)) / real (card query_words)
               in if similarity < 0.1 then None
                  else if (case flt of None \<Rightarrow> False | Some matches \<Rightarrow> \<not> matches e) then None
                  else (let authority = calculate_authority_score (m_metadata e);
                            temporal = calculate_temporal_score now now (Some (m_created_at e));
                            combined = similarity * 0.6 + authority * 0.3 + temporal * 0.1
                        in Some \<lparr>chunk = entry_chunk e, similarity_score = similarity,
                                 authority_score = authority, temporal_score = temporal,
                                 combined_score = combined, rank = 0\<rparr>))))"

definition fallback_search ::
  "vector_db \<Rightarrow> string \<Rightarrow> int \<Rightarrow> (chunk_entry \<Rightarrow> bool) option \<Rightarrow> real \<Rightarrow> retrieval_result list" where
  "fallback_search self query top_k flt now =
     (let query_lower = lower query;
          results = List.map_filter (fallback_entry query_lower flt now) (chunk_metadata self)
      in sort_and_rank top_k results)"

definition process_hit ::
  "vector_db \<Rightarrow> real \<Rightarrow> (chunk_entry \<Rightarrow> bool) option \<Rightarrow> real \<Rightarrow> real \<times> int \<Rightarrow> retrieval_result option" where
  \<comment> \<open>body of \<open>for score, idx in zip(scores[0], indices[0])\<close>; \<open>None\<close> is \<open>continue\<close>\<close>
  "process_hit self threshold flt now = (\<lambda>(score, idx).
     if idx = - 1 then None
     else (let similarity = 1.0 - score / 2.0
           in if similarity < threshold then None
              else case map_of (chunk_metadata self) idx of
                     None \<Rightarrow> None
                   | Some e \<Rightarrow>
                       if (case flt of None \<Rightarrow> False | Some matches \<Rightarrow> \<not> matches e) then None
                       else (let authority = calculate_authority_score (m_metadata e);
                                 temporal = calculate_temporal_score now now (Some (m_created_at e));
                                 combined = similarity * 0.5 + authority * 0.3 + temporal * 0.2
                             in Some \<lparr>chunk = entry_chunk e, similarity_score = similarity,
                                      authority_score = authority, temporal_score = temporal,
                                      combined_score = combined, rank = 0\<rparr>)))"

definition search_similar_chunks ::
  "(string \<Rightarrow> string) \<Rightarrow> (faiss_index \<Rightarrow> vec \<Rightarrow> int \<Rightarrow> (real \<times> int) list) \<Rightarrow> vector_db \<Rightarrow>
   string \<Rightarrow> int \<Rightarrow> real option \<Rightarrow> (chunk_entry \<Rightarrow> bool) option \<Rightarrow> real \<Rightarrow>
   (py_error + retrieval_result list) \<times> vector_db" where
  \<comment> \<open>\<open>Inl\<close>: the exception of \<open>index.search\<close> that escapes; the query has been embedded
      by then, so the database carries the updated embedding manager in both cases\<close>
  "search_similar_chunks sha faiss_search self query top_k threshold_arg flt now =
     (let threshold = (case threshold_arg of None \<Rightarrow> similarity_threshold self | Some t \<Rightarrow> t);
          (query_embedding, em1) = embed_text sha (embedding_manager self) query True;
          self1 = self\<lparr>embedding_manager := em1\<rparr>
      in case index self1 of
           None \<Rightarrow> (Inr (fallback_search self1 query top_k flt now), self1)
         | Some ix \<Rightarrow>
             (case faiss_index_search faiss_search ix query_embedding
                     (min (top_k * 2) (int (length (f_vectors ix)))) of
                Inl e \<Rightarrow> (Inl e, self1)
              | Inr hits \<Rightarrow>
                  (let results = List.map_filter (process_hit self1 threshold flt now) hits
                   in (Inr (sort_and_rank top_k results), self1))))"

section \<open>ElasticsearchVectorDatabase (distributed variant)\<close>

text \<open>
  The Elasticsearch client is a library object. Its model: the documents of the index
  by \<open>_id\<close>, and \<open>es_fail\<close>, the exception every request raises while the cluster cannot
  be reached (\<open>None\<close> when it can). Indexing a document under an \<open>_id\<close> that exists
  overwrites it. How the engine scores and selects hits is not modelled: the search
  function takes it as the argument \<open>engine\<close>, from the documents and the query to the
  hits \<open>(_score, _source)\<close>. \<open>self.es\<close> is \<open>None\<close> when the client library is missing or
  the ping of the constructor failed.
\<close>

record es_source =
  s_chunk_id :: string
  s_content :: string
  s_content_vector :: vec
  s_source :: string
  s_document_id :: string
  s_document_title :: string
  s_chunk_index :: nat
  s_created_at :: real
  s_source_type :: "string option"
  s_authority_score :: "real option"
  s_mitre_techniques :: "string list"
  s_security_frameworks :: "string list"
  s_cves :: "string list"
  s_word_count :: nat
  s_character_count :: nat
  s_chunk_size :: nat
  s_position_in_document :: real
  s_metadata :: metadata

record es_client =
  es_fail :: "py_error option"
  es_docs :: "(string \<times> es_source) list"

record es_query =
  q_size :: int
  q_vector :: vec
  q_min_score :: real
  q_text :: "string option"
  q_filter :: "(es_source \<Rightarrow> bool) option"

record es_db =
  es_embedding_manager :: embedding_manager
  es_similarity_threshold :: real
  es :: "es_client option"

definition es_bulk :: "es_client \<Rightarrow> (string \<times> es_source) list \<Rightarrow> py_error + nat \<times> es_client" where
  \<comment> \<open>\<open>bulk(self.es, docs_to_index)\<close>: the count of indexed documents and the client after\<close>
  "es_bulk c actions =
     (case es_fail c of
        Some e \<Rightarrow> Inl e
      | None \<Rightarrow> Inr (length actions,
                     c\<lparr>es_docs := fold (\<lambda>(k, v). AList.update k v) actions (es_docs c)\<rparr>))"

definition es_refresh :: "es_client \<Rightarrow> py_error + unit" where
  "es_refresh c = (case es_fail c of Some e \<Rightarrow> Inl e | None \<Rightarrow> Inr ())"

definition es_search ::
  "((string \<times> es_source) list \<Rightarrow> es_query \<Rightarrow> (real \<times> es_source) list) \<Rightarrow> es_client \<Rightarrow> es_query \<Rightarrow>
   py_error + (real \<times> es_source) list" where
  "es_search engine c q = (case es_fail c of Some e \<Rightarrow> Inl e | None \<Rightarrow> Inr (engine (es_docs c) q))"

definition es_delete_by_query :: "es_client \<Rightarrow> string \<Rightarrow> py_error + nat \<times> es_client" where
  \<comment> \<open>the term query on \<open>document_id\<close>: the number deleted and the client after\<close>
  "es_delete_by_query c document_id =
     (case es_fail c of
        Some e \<Rightarrow> Inl e
      | None \<Rightarrow> Inr (length (filter (\<lambda>(k, v). s_document_id v = document_id) (es_docs c)),
                     c\<lparr>es_docs := filter (\<lambda>(k, v). s_document_id v \<noteq> document_id) (es_docs c)\<rparr>))"

definition es_calculate_authority_score :: "es_source \<Rightarrow> real" where
  "es_calculate_authority_score src =
     authority_signals (case s_authority_score src of None \<Rightarrow> 0.0 | Some a \<Rightarrow> a)
       (s_source_type src) (s_security_frameworks src) (s_mitre_techniques src) (s_cves src)"

definition doc_body :: "document \<Rightarrow> real \<Rightarrow> document_chunk \<times> vec \<Rightarrow> string \<times> es_source" where
  \<comment> \<open>one entry of \<open>docs_to_index\<close>: the \<open>_id\<close> and the \<open>_source\<close>\<close>
  "doc_body doc now = (\<lambda>(c, embedding).
     (c_id c,
      \<lparr>s_chunk_id = c_id c, s_content = c_content c, s_content_vector = embedding,
       s_source = c_source c, s_document_id = c_document_id c, s_document_title = d_title doc,
       s_chunk_index = c_chunk_index c, s_created_at = now * 1000,
       s_source_type = Some (d_source_type doc), s_authority_score = Some (d_authority_score doc),
       s_mitre_techniques = mitre_techniques (c_metadata c),
       s_security_frameworks = security_frameworks (c_metadata c),
       s_cves = cves (c_metadata c), s_word_count = chunk_words (c_metadata c),
       s_character_count = length (c_content c), s_chunk_size = md_chunk_size (c_metadata c),
       s_position_in_document = position_in_document (c_metadata c),
       s_metadata = c_metadata c\<rparr>))"

definition es_add_document ::
  "es_db \<Rightarrow> document \<Rightarrow> document_processor \<Rightarrow> real \<Rightarrow> py_error + nat \<times> es_db" where
  \<comment> \<open>the \<open>try\<close> around \<open>bulk\<close> and \<open>refresh\<close> returns 0 on any exception\<close>
  "es_add_document self doc chunk_processor now =
     (case es self of
        None \<Rightarrow> Inr (0, self)
      | Some client \<Rightarrow>
          (let chunks = create_chunks chunk_processor doc now
           in if chunks = [] then Inr (0, self)
              else case embed_batch (es_embedding_manager self) (map c_content chunks) 32 of
                     Inl e \<Rightarrow> Inl e
                   | Inr (embeddings, em1) \<Rightarrow>
                       (let self1 = self\<lparr>es_embedding_manager := em1\<rparr>;
                            docs_to_index = map (doc_body doc now) (zip chunks embeddings)
                        in case es_bulk client docs_to_index of
                             Inl e \<Rightarrow> Inr (0, self1)
                           | Inr (success_count, client1) \<Rightarrow>
                               (case es_refresh client1 of
                                  Inl e \<Rightarrow> Inr (0, self1\<lparr>es := Some client1\<rparr>)
                                | Inr u \<Rightarrow> Inr (success_count, self1\<lparr>es := Some client1\<rparr>)))))"

definition es_process_hit :: "real \<Rightarrow> real \<Rightarrow> real \<times> es_source \<Rightarrow> retrieval_result option" where
  \<comment> \<open>body of \<open>for hit in response["hits"]["hits"]\<close>; \<open>None\<close> is \<open>continue\<close>\<close>
  "es_process_hit threshold now = (\<lambda>(score, src).
     (let similarity = max 0.0 (score - 1.0)
      in if similarity < threshold then None
         else (let authority = es_calculate_authority_score src;
                   temporal = es_calculate_temporal_score now now (Some (s_created_at src));
                   combined = similarity * 0.5 + authority * 0.3 + temporal * 0.2
               in Some \<lparr>chunk = \<lparr>c_id = s_chunk_id src, c_content = s_content src,
                                 c_source = s_source src, c_document_id = s_document_id src,
                                 c_chunk_index = s_chunk_index src, c_metadata = s_metadata src,
                                 c_embedding = None, c_created_at = s_created_at src / 1000\<rparr>,
                        similarity_score = similarity, authority_score = authority,
                        temporal_score = temporal, combined_score = combined, rank = 0\<rparr>)))"

definition es_search_similar_chunks ::
  "(string \<Rightarrow> string) \<Rightarrow> ((string \<times> es_source) list \<Rightarrow> es_query \<Rightarrow> (real \<times> es_source) list) \<Rightarrow>
   es_db \<Rightarrow> string \<Rightarrow> int \<Rightarrow> real option \<Rightarrow> (es_source \<Rightarrow> bool) option \<Rightarrow> bool \<Rightarrow> real \<Rightarrow>
   retrieval_result list \<times> es_db" where
  \<comment> \<open>the \<open>try\<close> around the request and the loop returns \<open>[]\<close> on any exception\<close>
  "es_search_similar_chunks sha engine self query top_k threshold_arg flt use_hybrid_search now =
     (case es self of
        None \<Rightarrow> ([], self)
      | Some client \<Rightarrow>
          (let threshold = (case threshold_arg of None \<Rightarrow> es_similarity_threshold self | Some t \<Rightarrow> t);
               (query_embedding, em1) = embed_text sha (es_embedding_manager self) query True;
               self1 = self\<lparr>es_embedding_manager := em1\<rparr>;
               search_query = \<lparr>q_size = top_k * 2, q_vector = query_embedding,
                               q_min_score = threshold + 1.0,
                               q_text = (if use_hybrid_search then Some query else None),
                               q_filter = flt\<rparr>
           in case es_search engine client search_query of
                Inl e \<Rightarrow> ([], self1)
              | Inr hits \<Rightarrow>
                  (sort_and_rank top_k (List.map_filter (es_process_hit threshold now) hits), self1)))"

definition es_delete_document :: "es_db \<Rightarrow> string \<Rightarrow> bool \<times> es_db" where
  "es_delete_document self document_id =
     (case es self of
        None \<Rightarrow> (False, self)
      | Some client \<Rightarrow>
          (case es_delete_by_query client document_id of
             Inl e \<Rightarrow> (False, self)
           | Inr (deleted_count, client1) \<Rightarrow> (True, self\<lparr>es := Some client1\<rparr>)))"

definition es_chunk_count :: "es_db \<Rightarrow> nat" where
  \<comment> \<open>the number of chunk records in the index (0 without a client)\<close>
  "es_chunk_count self = (case es self of None \<Rightarrow> 0 | Some client \<Rightarrow> length (es_docs client))"

section \<open>ContextOptimizer.compress_context\<close>

definition security_keywords :: "string list" where
  "security_keywords =
     [''mitre'', ''attack'', ''technique'', ''detection'', ''exploit'', ''vulnerability'']"

definition section_score :: "string \<Rightarrow> nat" where
  \<comment> \<open>\<open>sum(1 for keyword in security_keywords if keyword.lower() in section.lower())\<close>\<close>
  "section_score section =
     length (filter (\<lambda>keyword. sublist (lower keyword) (lower section)) security_keywords)"

fun fit_sections :: "int \<Rightarrow> int \<Rightarrow> string list \<Rightarrow> (nat \<times> string) list \<Rightarrow> string list" where
  \<comment> \<open>\<open>for score, section in scored_sections\<close> with its \<open>break\<close>; the arguments are
      \<open>target_length\<close>, \<open>current_length\<close> and \<open>compressed_parts\<close>\<close>
  "fit_sections target_length current_length compressed_parts [] = compressed_parts"
| "fit_sections target_length current_length compressed_parts ((score, section) # rest) =
     (if current_length + int (length section) \<le> target_length
      then fit_sections target_length (current_length + int (length section))
             (compressed_parts @ [section]) rest
      else (let remaining = target_length - current_length
            in if remaining > 100 then compressed_parts @ [py_take remaining section @ ''...'']
               else compressed_parts))"

definition compress_context :: "string \<Rightarrow> int \<Rightarrow> string" where
  "compress_context context target_length =
     (if int (length context) \<le> target_length then context
      else (let sections = split_nn [] context;
                scored_sections = map (\<lambda>section. (section_score section, section)) sections;
                sorted_sections = sort_key (\<lambda>x. - int (fst x)) scored_sections
            in join_nn (fit_sections target_length 0 [] sorted_sections)))"

section \<open>Repeated ingestion\<close>

text \<open>
  The database after a call of \<open>add_document\<close>, and two conditions on a local store. A
  store that \<open>add_document\<close> built from the empty one has all keys of \<open>chunk_metadata\<close>
  below \<open>next_index\<close>; \<open>index_accepts\<close> says that \<open>index.add\<close> will not reject the
  vectors of the embedding manager for their dimension.
\<close>

definition after_add_document :: "vector_db \<Rightarrow> document \<Rightarrow> document_processor \<Rightarrow> real \<Rightarrow> vector_db" where
  "after_add_document self doc chunk_processor now =
     (case add_document self doc chunk_processor now of Inl e \<Rightarrow> self | Inr (n, self1) \<Rightarrow> self1)"

definition es_after_add_document :: "es_db \<Rightarrow> document \<Rightarrow> document_processor \<Rightarrow> real \<Rightarrow> es_db" where
  "es_after_add_document self doc chunk_processor now =
     (case es_add_document self doc chunk_processor now of Inl e \<Rightarrow> self | Inr (n, self1) \<Rightarrow> self1)"

definition keys_below_next :: "vector_db \<Rightarrow> bool" where
  "keys_below_next self = (\<forall>k \<in> fst ` set (chunk_metadata self). k < next_index self)"

definition vectors_of :: "embedding_manager \<Rightarrow> vec set" where
  \<comment> \<open>the vectors \<open>embed_batch\<close> can return: any of the configured dimension without a
      model, else the encodings of the model\<close>
  "vectors_of em =
     (case model em of None \<Rightarrow> {v. length v = embedding_dim em} | Some encode \<Rightarrow> range encode)"

definition index_accepts :: "vector_db \<Rightarrow> bool" where
  "index_accepts self =
     (case index self of
        None \<Rightarrow> True
      | Some ix \<Rightarrow> \<forall>v \<in> vectors_of (embedding_manager self). length v = f_dim ix)"

section \<open>Example data\<close>

text \<open>
  Small concrete stores, used where a property is evaluated on an input: an embedding
  manager without a model, a local database of two chunks with the same text and
  metadata (chunk \<open>b\<close> stored before chunk \<open>a\<close>), a FAISS search that returns a given
  list of hits, and an Elasticsearch engine that gives every document the score 1.9.
\<close>

definition example_manager :: embedding_manager where
  "example_manager = \<lparr>model = None, embedding_dim = 2, embedding_cache = Map.empty,
                       rng = (\<lambda>n. 0), rng_pos = 0, model_calls = 0\<rparr>"

definition example_metadata :: metadata where
  "example_metadata = \<lparr>document_title = ''t'', document_source_type = Some ''manual'',
                        md_chunk_size = 1, chunk_words = 1, position_in_document = 0,
                        mitre_techniques = [], security_frameworks = [], cves = []\<rparr>"

definition example_entry :: "string \<Rightarrow> string \<Rightarrow> int \<Rightarrow> chunk_entry" where
  "example_entry cid text pos =
     \<lparr>m_chunk_id = cid, m_content = text, m_source = ''s'', m_document_id = ''d'',
      m_chunk_index = 0, m_metadata = example_metadata, m_created_at = 0, m_index_position = pos\<rparr>"

definition example_index :: faiss_index where
  "example_index = \<lparr>f_dim = 2, f_vectors = [[0, 0], [0, 0]]\<rparr>"

definition example_db :: "faiss_index option \<Rightarrow> vector_db" where
  "example_db ix =
     \<lparr>embedding_manager = example_manager, similarity_threshold = 0.7, index = ix,
      chunk_metadata = [(0, example_entry ''b'' ''x'' 0), (1, example_entry ''a'' ''x'' 1)],
      document_registry = [], next_index = 2\<rparr>"

definition example_faiss :: "(real \<times> int) list \<Rightarrow> faiss_index \<Rightarrow> vec \<Rightarrow> int \<Rightarrow> (real \<times> int) list" where
  "example_faiss hits ix q k = hits"

definition example_source :: "string \<Rightarrow> es_source" where
  "example_source cid =
     \<lparr>s_chunk_id = cid, s_content = ''x'', s_content_vector = [0, 0], s_source = ''s'',
      s_document_id = ''d'', s_document_title = ''t'', s_chunk_index = 0, s_created_at = 0,
      s_source_type = Some ''manual'', s_authority_score = Some 0,
      s_mitre_techniques = [], s_security_frameworks = [], s_cves = [],
      s_word_count = 1, s_character_count = 1, s_chunk_size = 1, s_position_in_document = 0,
      s_metadata = example_metadata\<rparr>"

definition example_es_db :: "es_client option \<Rightarrow> es_db" where
  "example_es_db c = \<lparr>es_embedding_manager = example_manager, es_similarity_threshold = 0.7, es = c\<rparr>"

definition example_engine :: "(string \<times> es_source) list \<Rightarrow> es_query \<Rightarrow> (real \<times> es_source) list" where
  \<comment> \<open>an engine that scores every document 1.9\<close>
  "example_engine docs q = map (\<lambda>(k, v). (1.9, v)) docs"

definition example_encode :: "string \<Rightarrow> vec" where
  "example_encode text = [real (length text), 0]"

definition example_model_manager :: "(string \<rightharpoonup> vec) \<Rightarrow> embedding_manager" where
  "example_model_manager cache =
     \<lparr>model = Some example_encode, embedding_dim = 2, embedding_cache = cache,
      rng = real, rng_pos = 0, model_calls = 0\<rparr>"

definition example_random_manager :: embedding_manager where
  "example_random_manager = \<lparr>model = None, embedding_dim = 2, embedding_cache = Map.empty,
                              rng = real, rng_pos = 0, model_calls = 0\<rparr>"

definition example_processor :: document_processor where
  "example_processor = \<lparr>chunk_size = 1024, chunk_overlap = 128\<rparr>"

definition example_document :: document where
  "example_document =
     \<lparr>d_id = ''d'', d_title = ''t'', d_content = ''x'', d_source = ''s'', d_source_type = ''manual'',
      d_metadata = \<lparr>dm_mitre_techniques = [], dm_security_frameworks = [], dm_cves = []\<rparr>,
      d_authority_score = 0, d_created_at = 0, d_last_updated = 0\<rparr>"

definition example_empty_db :: vector_db where
  "example_empty_db =
     \<lparr>embedding_manager = example_manager, similarity_threshold = 0.7, index = None,
      chunk_metadata = [], document_registry = [], next_index = 0\<rparr>"

section \<open>Chunk size\<close>

text \<open>
  C1. The claim: every chunk returned by \<open>smart_chunk_text(content, max_size)\<close> has length
  at most \<open>max_size\<close>, unless the chunk is a single sentence that is itself longer than
  \<open>max_size\<close>. The code tests \<open>len(current_chunk) + len(sentence) > chunk_size\<close> and then
  joins with a separator that the test did not count. On the text \<open>a.bc.x\<close> with
  \<open>max_size = 3\<close> the only paragraph is split into the sentences \<open>a\<close>, \<open>bc\<close>, \<open>x\<close>, and the
  first chunk returned is \<open>a bc\<close>: four characters, made of two sentences.
\<close>

theorem smart_chunk_text_exceeds_max_size:
  "smart_chunk_text \<lparr>chunk_size = 1024, chunk_overlap = 128\<rparr> ''a.bc.x'' (Some 3) = [''a bc'', ''x'']
   \<and> split_nn [] ''a.bc.x'' = [''a.bc.x'']
   \<and> map strip (re_split_terminators [] ''a.bc.x'') = [''a'', ''bc'', ''x'']
   \<and> int (length ''a bc'') > 3"
  by (simp add: smart_chunk_text_def flush_def strip_def isspace_def is_terminator_def)

section \<open>Temporal score\<close>

text \<open>
  C6. The temporal score of both variants is the step function \<open>temporal_band\<close> of the age
  in days, computed from the clock and the stored \<open>created_at\<close> (seconds in the local
  variant, milliseconds in the distributed one; the clock itself when the key is missing).
  It takes the values 1.0, 0.8, 0.6, 0.4, 0.2, all in [0,1]: 1.0 up to 30 days, then the
  bands ending at 90, 365 and 730 days, and 0.2 beyond 730 days. It never increases with
  age. Being a function of the age alone, it involves no randomness.
\<close>

theorem temporal_score_is_step_function:
  "calculate_temporal_score t0 t1 (Some c) = temporal_band ((t1 - c) / 86400)
   \<and> calculate_temporal_score t0 t1 None = temporal_band ((t1 - t0) / 86400)
   \<and> es_calculate_temporal_score t0 t1 (Some ms) = temporal_band ((t1 - ms / 1000) / 86400)
   \<and> es_calculate_temporal_score t0 t1 None = temporal_band ((t1 - t0) / 86400)
   \<and> temporal_band a \<in> {1, 0.8, 0.6, 0.4, 0.2}
   \<and> 0 \<le> temporal_band a \<and> temporal_band a \<le> 1
   \<and> (a \<le> 30 \<longrightarrow> temporal_band a = 1)
   \<and> (30 < a \<and> a \<le> 90 \<longrightarrow> temporal_band a = 0.8)
   \<and> (90 < a \<and> a \<le> 365 \<longrightarrow> temporal_band a = 0.6)
   \<and> (365 < a \<and> a \<le> 730 \<longrightarrow> temporal_band a = 0.4)
   \<and> (730 < a \<longrightarrow> temporal_band a = 0.2)
   \<and> (a \<le> b \<longrightarrow> temporal_band b \<le> temporal_band a)"
  by (simp add: calculate_temporal_score_def es_calculate_temporal_score_def temporal_band_def)

theorem temporal_score_is_step_function_witness:
  "temporal_band 20 = 1 \<and> temporal_band 60 = 0.8 \<and> temporal_band 200 = 0.6
   \<and> temporal_band 500 = 0.4 \<and> temporal_band 1000 = 0.2
   \<and> temporal_band 1000 \<le> temporal_band 20
   \<and> calculate_temporal_score 0 8640000 (Some 0) = 0.6"
  using temporal_score_is_step_function [of 0 8640000 0 0 20 1000]
        temporal_score_is_step_function [of 0 0 0 0 60 60]
        temporal_score_is_step_function [of 0 0 0 0 200 200]
        temporal_score_is_step_function [of 0 0 0 0 500 500]
        temporal_score_is_step_function [of 0 0 0 0 1000 1000]
        temporal_score_is_step_function [of 0 0 0 0 100 100]
  by simp

section \<open>Ranking: helper facts\<close>

lemma py_take_is_take: "\<exists>n. py_take k xs = take n xs"
  by (auto simp: py_take_def)

lemma py_take_map: "map f (py_take k xs) = py_take k (map f xs)"
  by (simp add: py_take_def take_map)

lemma set_py_take: "set (py_take k xs) \<subseteq> set xs"
  by (auto simp: py_take_def dest: in_set_takeD)

lemma py_take_prefix: "prefix (py_take k xs) xs"
  by (simp add: py_take_def take_is_prefix)

lemma length_py_take: "0 \<le> k \<Longrightarrow> length (py_take k xs) = min (nat k) (length xs)"
  by (simp add: py_take_def)

lemma rank_enumerate_map:
  assumes "\<And>r i. f (r\<lparr>rank := i\<rparr>) = f r"
  shows "map f (map (\<lambda>(i, result). result\<lparr>rank := int i + 1\<rparr>) (enumerate n xs)) = map f xs"
  using assms by (induction xs arbitrary: n) simp_all

lemma sort_and_rank_map:
  assumes "\<And>r i. f (r\<lparr>rank := i\<rparr>) = f r"
  shows "map f (sort_and_rank k rs) = py_take k (map f (sort_key (\<lambda>x. - combined_score x) rs))"
  unfolding sort_and_rank_def Let_def
  by (simp only: rank_enumerate_map [of f, OF assms] py_take_map)

lemma rank_enumerate:
  "map rank (map (\<lambda>(i, result). result\<lparr>rank := int i + 1\<rparr>) (enumerate n xs))
     = map int [Suc n..<Suc n + length xs]"
proof (induction xs arbitrary: n)
  case Nil
  then show ?case by simp
next
  case (Cons x xs)
  have "[Suc n..<Suc n + length (x # xs)] = Suc n # [Suc (Suc n)..<Suc (Suc n) + length xs]"
    by (simp add: upt_rec)
  with Cons show ?case by simp
qed

lemma length_sort_and_rank: "length (sort_and_rank k rs) = length (py_take k rs)"
  by (simp add: sort_and_rank_def py_take_def)

lemma sort_and_rank_ranks:
  "map rank (sort_and_rank k rs) = map int [1..<Suc (length (sort_and_rank k rs))]"
proof -
  have "length (sort_and_rank k rs) = length (py_take k (sort_key (\<lambda>x. - combined_score x) rs))"
    by (simp add: sort_and_rank_def)
  then show ?thesis
    unfolding sort_and_rank_def Let_def
    by (simp only: rank_enumerate [of 0] One_nat_def plus_nat.add_Suc plus_nat.add_0)
qed

lemma sorted_desc_sort_key:
  "sorted_wrt (\<ge>) (map combined_score (sort_key (\<lambda>x. - combined_score x) rs))"
proof -
  have "sorted (map (\<lambda>x. - combined_score x) (sort_key (\<lambda>x. - combined_score x) rs))"
    by (rule sorted_sort_key)
  then show ?thesis by (simp add: sorted_wrt_map)
qed

lemma sort_and_rank_sorted: "sorted_wrt (\<ge>) (map combined_score (sort_and_rank k rs))"
proof -
  obtain n where n: "py_take k (map combined_score (sort_key (\<lambda>x. - combined_score x) rs))
      = take n (map combined_score (sort_key (\<lambda>x. - combined_score x) rs))"
    using py_take_is_take by blast
  show ?thesis
    by (simp add: sort_and_rank_map n sorted_desc_sort_key)
qed

lemma sort_and_rank_stable:
  "prefix (map chunk (filter (\<lambda>r. combined_score r = v) (sort_and_rank k rs)))
          (map chunk (filter (\<lambda>r. combined_score r = v) rs))"
proof -
  let ?pair = "\<lambda>r. (chunk r, combined_score r)"
  let ?g = "\<lambda>x. - combined_score x"
  have sel: "map chunk (filter (\<lambda>r. combined_score r = v) xs)
               = map fst (filter (\<lambda>p. snd p = v) (map ?pair xs))" for xs :: "retrieval_result list"
    by (induction xs) simp_all
  have "filter (\<lambda>y. ?g y = - v) (sort_key ?g rs) = filter (\<lambda>y. ?g y = - v) rs"
    by (rule sort_key_stable)
  then have st: "filter (\<lambda>r. combined_score r = v) (sort_key ?g rs) = filter (\<lambda>r. combined_score r = v) rs"
    by simp
  have "map ?pair (sort_and_rank k rs) = py_take k (map ?pair (sort_key ?g rs))"
    by (rule sort_and_rank_map) simp
  then have "prefix (map ?pair (sort_and_rank k rs)) (map ?pair (sort_key ?g rs))"
    by (simp add: py_take_prefix)
  then have "prefix (filter (\<lambda>p. snd p = v) (map ?pair (sort_and_rank k rs)))
                    (filter (\<lambda>p. snd p = v) (map ?pair (sort_key ?g rs)))"
    by (rule filter_mono_prefix)
  then have "prefix (map fst (filter (\<lambda>p. snd p = v) (map ?pair (sort_and_rank k rs))))
                    (map fst (filter (\<lambda>p. snd p = v) (map ?pair (sort_key ?g rs))))"
    by (rule map_mono_prefix)
  then show ?thesis
    by (simp only: sel [symmetric] st)
qed

lemma sort_and_rank_mem:
  assumes "r \<in> set (sort_and_rank k rs)"
  shows "\<exists>r0 \<in> set rs. \<exists>i. r = r0\<lparr>rank := i\<rparr>"
proof -
  from assms obtain i r0 where "(i, r0) \<in> set (enumerate 0 (py_take k (sort_key (\<lambda>x. - combined_score x) rs)))"
    and r: "r = r0\<lparr>rank := int i + 1\<rparr>"
    by (auto simp: sort_and_rank_def)
  then have "r0 \<in> set (py_take k (sort_key (\<lambda>x. - combined_score x) rs))"
    by (auto simp: in_set_enumerate_eq)
  then have "r0 \<in> set rs"
    using set_py_take by fastforce
  with r show ?thesis by blast
qed

lemmas example_defs = example_manager_def example_metadata_def example_entry_def example_index_def
  example_db_def example_faiss_def example_source_def example_es_db_def example_engine_def

lemmas search_defs = search_similar_chunks_def faiss_index_search_def embed_text_def np_random_def
     fallback_search_def fallback_entry_def process_hit_def lower_def lower_char_def isspace_def
     calculate_authority_score_def authority_signals_def source_scores_def
     calculate_temporal_score_def temporal_band_def sort_and_rank_def py_take_def entry_chunk_def

lemmas es_search_defs = es_search_similar_chunks_def embed_text_def np_random_def es_search_def
     es_process_hit_def es_calculate_authority_score_def authority_signals_def source_scores_def
     es_calculate_temporal_score_def temporal_band_def sort_and_rank_def py_take_def

lemma map_filter_mem: "r \<in> set (List.map_filter f xs) \<Longrightarrow> \<exists>x \<in> set xs. f x = Some r"
  by (auto simp: List.map_filter_def)

lemma process_hit_Some:
  assumes "process_hit self threshold flt now h = Some r"
  shows "combined_score r = 0.5 * similarity_score r + 0.3 * authority_score r + 0.2 * temporal_score r"
    and "threshold \<le> similarity_score r"
  using assms
  by (auto simp: process_hit_def Let_def split: prod.splits if_splits option.splits)

lemma es_process_hit_Some:
  assumes "es_process_hit threshold now h = Some r"
  shows "combined_score r = 0.5 * similarity_score r + 0.3 * authority_score r + 0.2 * temporal_score r"
    and "threshold \<le> similarity_score r"
  using assms
  by (auto simp: es_process_hit_def Let_def split: prod.splits if_splits)

lemma fallback_entry_Some:
  assumes "fallback_entry q flt now h = Some r"
  shows "combined_score r = 0.6 * similarity_score r + 0.3 * authority_score r + 0.1 * temporal_score r"
  using assms
  by (auto simp: fallback_entry_def Let_def split: prod.splits if_splits option.splits)

lemma process_hit_manager [simp]:
  "process_hit (self\<lparr>embedding_manager := em\<rparr>) = process_hit self"
  by (simp add: process_hit_def fun_eq_iff Let_def)

lemma fallback_search_manager [simp]:
  "fallback_search (self\<lparr>embedding_manager := em\<rparr>) = fallback_search self"
  by (simp add: fallback_search_def fun_eq_iff Let_def)

lemma search_primary:
  assumes "index self = Some ix"
    and "length (fst (embed_text sha (embedding_manager self) query True)) = f_dim ix"
    and "0 < min (top_k * 2) (int (length (f_vectors ix)))"
  shows "fst (search_similar_chunks sha faiss_search self query top_k thr flt now) =
         Inr (sort_and_rank top_k (List.map_filter
           (process_hit self (case thr of None \<Rightarrow> similarity_threshold self | Some t \<Rightarrow> t) flt now)
           (faiss_search ix (fst (embed_text sha (embedding_manager self) query True))
              (min (top_k * 2) (int (length (f_vectors ix)))))))"
  using assms
  by (cases "embed_text sha (embedding_manager self) query True")
     (simp add: search_similar_chunks_def faiss_index_search_def Let_def)

lemma search_raises:
  assumes "index self = Some ix"
    and "length (fst (embed_text sha (embedding_manager self) query True)) \<noteq> f_dim ix
         \<or> min (top_k * 2) (int (length (f_vectors ix))) \<le> 0"
  shows "fst (search_similar_chunks sha faiss_search self query top_k thr flt now) = Inl AssertionError"
proof -
  define k where "k = min (top_k * 2) (int (length (f_vectors ix)))"
  obtain q em where e: "embed_text sha (embedding_manager self) query True = (q, em)"
    by (cases "embed_text sha (embedding_manager self) query True")
  from assms(2) e have "length q \<noteq> f_dim ix \<or> k \<le> 0"
    by (simp add: k_def)
  then have "\<not> (length q = f_dim ix \<and> 0 < k)"
    by auto
  then have "faiss_index_search faiss_search ix q k = Inl AssertionError"
    by (simp only: faiss_index_search_def if_False)
  with assms(1) e show ?thesis
    by (simp add: search_similar_chunks_def Let_def k_def)
qed

lemma search_fallback:
  assumes "index self = None"
  shows "fst (search_similar_chunks sha faiss_search self query top_k thr flt now) =
         Inr (fallback_search self query top_k flt now)"
  using assms by (simp add: search_similar_chunks_def Let_def split: prod.splits)

lemma search_returned:
  assumes "fst (search_similar_chunks sha faiss_search self query top_k thr flt now) = Inr rs"
  shows "rs = (case index self of
                 None \<Rightarrow> sort_and_rank top_k
                           (List.map_filter (fallback_entry (lower query) flt now) (chunk_metadata self))
               | Some ix \<Rightarrow> sort_and_rank top_k (List.map_filter
                   (process_hit self (case thr of None \<Rightarrow> similarity_threshold self | Some t \<Rightarrow> t) flt now)
                   (faiss_search ix (fst (embed_text sha (embedding_manager self) query True))
                      (min (top_k * 2) (int (length (f_vectors ix)))))))"
proof (cases "index self")
  case None
  with assms show ?thesis
    by (simp add: search_fallback fallback_search_def)
next
  case (Some ix)
  show ?thesis
  proof (cases "length (fst (embed_text sha (embedding_manager self) query True)) = f_dim ix
                \<and> 0 < min (top_k * 2) (int (length (f_vectors ix)))")
    case True
    with Some assms show ?thesis
      by (simp add: search_primary)
  next
    case False
    with Some have "fst (search_similar_chunks sha faiss_search self query top_k thr flt now) = Inl AssertionError"
      by (intro search_raises) auto
    with assms show ?thesis by simp
  qed
qed

lemma es_search_results:
  "fst (es_search_similar_chunks sha engine self query top_k thr flt hybrid now) = [] \<or>
   (\<exists>hits. fst (es_search_similar_chunks sha engine self query top_k thr flt hybrid now) =
      sort_and_rank top_k (List.map_filter
        (es_process_hit (case thr of None \<Rightarrow> es_similarity_threshold self | Some t \<Rightarrow> t) now) hits))"
  by (auto simp: es_search_similar_chunks_def Let_def split: prod.splits option.splits sum.splits)

lemma map_filter_filter:
  assumes "\<And>x. \<not> P x \<Longrightarrow> f x = None"
  shows "List.map_filter f xs = List.map_filter f (filter P xs)"
  by (induction xs) (auto simp: assms split: option.splits)

lemma process_hit_below:
  "\<not> (case h of (score, idx) \<Rightarrow> threshold \<le> 1.0 - score / 2.0) \<Longrightarrow> process_hit self threshold flt now h = None"
  by (cases h) (simp add: process_hit_def Let_def)

section \<open>Combined score\<close>

text \<open>
  C2, as amended. A result of the FAISS path of the local variant and a result of the
  distributed variant have
  \<open>combined_score = 0.5 * similarity_score + 0.3 * authority_score + 0.2 * temporal_score\<close>.
  A result of the fallback path of the local variant (no FAISS index) has
  \<open>combined_score = 0.6 * similarity_score + 0.3 * authority_score + 0.1 * temporal_score\<close>.
\<close>

theorem combined_score_weights:
  "(fst (search_similar_chunks sha faiss_search self query top_k thr flt now) = Inr rs \<longrightarrow>
      (\<forall>r \<in> set rs. index self \<noteq> None \<longrightarrow>
         combined_score r = 0.5 * similarity_score r + 0.3 * authority_score r + 0.2 * temporal_score r))
   \<and> (\<forall>r \<in> set (fst (es_search_similar_chunks sha engine es_self query top_k thr es_flt hybrid now)).
      combined_score r = 0.5 * similarity_score r + 0.3 * authority_score r + 0.2 * temporal_score r)
   \<and> (fst (search_similar_chunks sha faiss_search self query top_k thr flt now) = Inr rs \<longrightarrow>
      (\<forall>r \<in> set rs. index self = None \<longrightarrow>
         combined_score r = 0.6 * similarity_score r + 0.3 * authority_score r + 0.1 * temporal_score r))"
proof (intro conjI ballI impI)
  fix r
  assume rs: "fst (search_similar_chunks sha faiss_search self query top_k thr flt now) = Inr rs"
    and r: "r \<in> set rs" and "index self \<noteq> None"
  then obtain ix where "index self = Some ix" by blast
  with r search_returned [OF rs]
  obtain r0 i h where "process_hit self (case thr of None \<Rightarrow> similarity_threshold self | Some t \<Rightarrow> t) flt now h = Some r0"
    and "r = r0\<lparr>rank := i\<rparr>"
    by (auto dest!: sort_and_rank_mem map_filter_mem)
  then show "combined_score r = 0.5 * similarity_score r + 0.3 * authority_score r + 0.2 * temporal_score r"
    using process_hit_Some(1) by fastforce
next
  fix r
  assume r: "r \<in> set (fst (es_search_similar_chunks sha engine es_self query top_k thr es_flt hybrid now))"
  then obtain hits where "r \<in> set (sort_and_rank top_k (List.map_filter
        (es_process_hit (case thr of None \<Rightarrow> es_similarity_threshold es_self | Some t \<Rightarrow> t) now) hits))"
    using es_search_results [of sha engine es_self query top_k thr es_flt hybrid now] by auto
  then obtain r0 i h where "es_process_hit (case thr of None \<Rightarrow> es_similarity_threshold es_self | Some t \<Rightarrow> t) now h = Some r0"
    and "r = r0\<lparr>rank := i\<rparr>"
    by (auto dest!: sort_and_rank_mem map_filter_mem)
  then show "combined_score r = 0.5 * similarity_score r + 0.3 * authority_score r + 0.2 * temporal_score r"
    using es_process_hit_Some(1) by fastforce
next
  fix r
  assume rs: "fst (search_similar_chunks sha faiss_search self query top_k thr flt now) = Inr rs"
    and r: "r \<in> set rs" and "index self = None"
  with search_returned [OF rs]
  obtain r0 i h where "fallback_entry (lower query) flt now h = Some r0"
    and "r = r0\<lparr>rank := i\<rparr>"
    by (auto dest!: sort_and_rank_mem map_filter_mem)
  then show "combined_score r = 0.6 * similarity_score r + 0.3 * authority_score r + 0.1 * temporal_score r"
    using fallback_entry_Some by fastforce
qed

text \<open>The three parts of the statement at the example stores, each with a result.\<close>

theorem combined_score_weights_witness:
  "map_sum id (map combined_score)
      (fst (search_similar_chunks id (example_faiss [(0.2, 0)]) (example_db (Some example_index)) ''x'' 10 None None 0))
     = Inr [0.5 * 0.9 + 0.3 * 0.2 + 0.2 * 1]
   \<and> hd (fst (es_search_similar_chunks id example_engine
             (example_es_db (Some \<lparr>es_fail = None, es_docs = [(''a'', example_source ''a'')]\<rparr>)) ''x'' 10 None None True 0))
     \<in> set (fst (es_search_similar_chunks id example_engine
             (example_es_db (Some \<lparr>es_fail = None, es_docs = [(''a'', example_source ''a'')]\<rparr>)) ''x'' 10 None None True 0))
   \<and> combined_score (hd (fst (es_search_similar_chunks id example_engine
             (example_es_db (Some \<lparr>es_fail = None, es_docs = [(''a'', example_source ''a'')]\<rparr>)) ''x'' 10 None None True 0)))
       = 0.5 * 0.9 + 0.3 * 0.2 + 0.2 * 1
   \<and> map_sum id (map combined_score)
      (fst (search_similar_chunks id (example_faiss []) (example_db None) ''x y'' 10 None None 0))
     = Inr [0.6 * 0.5 + 0.3 * 0.2 + 0.1 * 1, 0.6 * 0.5 + 0.3 * 0.2 + 0.1 * 1]"
proof -
  let ?S1 = "fst (search_similar_chunks id (example_faiss [(0.2, 0)]) (example_db (Some example_index)) ''x'' 10 None None 0)"
  let ?R2 = "fst (es_search_similar_chunks id example_engine
             (example_es_db (Some \<lparr>es_fail = None, es_docs = [(''a'', example_source ''a'')]\<rparr>)) ''x'' 10 None None True 0)"
  let ?S3 = "fst (search_similar_chunks id (example_faiss []) (example_db None) ''x y'' 10 None None 0)"
  have "\<exists>rs. ?S1 = Inr rs \<and> map similarity_score rs = [0.9] \<and> map authority_score rs = [0.2]
          \<and> map temporal_score rs = [1]"
    by (simp add: example_defs search_defs)
  then obtain r1 where s1: "?S1 = Inr [r1]"
    and e1: "similarity_score r1 = 0.9" "authority_score r1 = 0.2" "temporal_score r1 = 1"
    by (auto simp: map_eq_Cons_conv)
  have v2: "map similarity_score ?R2 = [0.9] \<and> map authority_score ?R2 = [0.2] \<and> map temporal_score ?R2 = [1]"
    by (simp add: example_defs es_search_defs)
  have "\<exists>rs. ?S3 = Inr rs \<and> map similarity_score rs = [0.5, 0.5] \<and> map authority_score rs = [0.2, 0.2]
          \<and> map temporal_score rs = [1, 1]"
    by (simp add: example_defs search_defs)
  then obtain r3 r4 where s3: "?S3 = Inr [r3, r4]"
    and e3: "similarity_score r3 = 0.5" "authority_score r3 = 0.2" "temporal_score r3 = 1"
      "similarity_score r4 = 0.5" "authority_score r4 = 0.2" "temporal_score r4 = 1"
    by (auto simp: map_eq_Cons_conv)
  have m2: "hd ?R2 \<in> set ?R2" using v2 by (cases ?R2) auto
  have i1: "index (example_db (Some example_index)) \<noteq> None" by (simp add: example_db_def)
  have i3: "index (example_db None) = None" by (simp add: example_db_def)
  have e2: "similarity_score (hd ?R2) = 0.9 \<and> authority_score (hd ?R2) = 0.2 \<and> temporal_score (hd ?R2) = 1"
    using v2 by (cases ?R2) auto
  have c1: "combined_score r1 = 0.5 * similarity_score r1 + 0.3 * authority_score r1 + 0.2 * temporal_score r1"
    using combined_score_weights [where sha = id and faiss_search = "example_faiss [(0.2, 0)]"
        and self = "example_db (Some example_index)" and query = "''x''" and top_k = 10
        and thr = None and flt = None and now = 0 and rs = "[r1]"]
      s1 i1 by simp
  have c2: "combined_score (hd ?R2) = 0.5 * similarity_score (hd ?R2) + 0.3 * authority_score (hd ?R2) + 0.2 * temporal_score (hd ?R2)"
    using combined_score_weights [where sha = id and engine = example_engine
        and es_self = "example_es_db (Some \<lparr>es_fail = None, es_docs = [(''a'', example_source ''a'')]\<rparr>)"
        and query = "''x''" and top_k = 10 and thr = None and es_flt = None and hybrid = True and now = 0]
      m2 by blast
  have c3: "combined_score r3 = 0.6 * similarity_score r3 + 0.3 * authority_score r3 + 0.1 * temporal_score r3
            \<and> combined_score r4 = 0.6 * similarity_score r4 + 0.3 * authority_score r4 + 0.1 * temporal_score r4"
    using combined_score_weights [where sha = id and faiss_search = "example_faiss []"
        and self = "example_db None" and query = "''x y''" and top_k = 10
        and thr = None and flt = None and now = 0 and rs = "[r3, r4]"]
      s3 i3 by simp
  show ?thesis
    using s1 s3 m2 c1 c2 c3 e1 e2 e3 by simp
qed

text \<open>
  The claim as stated fails on the fallback path: the query \<open>x y\<close> against the
  FAISS-less example store gives similarity 0.5, authority 0.2 and temporal score 1,
  and the combined score 0.46, not 0.51.
\<close>

theorem combined_score_fallback_counterexample:
  "map similarity_score (fallback_search (example_db None) ''x y'' 10 None 0) = [0.5, 0.5]
   \<and> map authority_score (fallback_search (example_db None) ''x y'' 10 None 0) = [0.2, 0.2]
   \<and> map temporal_score (fallback_search (example_db None) ''x y'' 10 None 0) = [1, 1]
   \<and> map combined_score (fallback_search (example_db None) ''x y'' 10 None 0) = [0.46, 0.46]
   \<and> fst (search_similar_chunks id (example_faiss []) (example_db None) ''x y'' 10 None None 0)
       = Inr (fallback_search (example_db None) ''x y'' 10 None 0)
   \<and> (0.46 :: real) \<noteq> 0.5 * 0.5 + 0.3 * 0.2 + 0.2 * 1"
  by (simp add: example_defs search_defs)

section \<open>Order of the results\<close>

text \<open>
  C3, as amended. The results of every search are in descending order of
  \<open>combined_score\<close>. A search returns \<open>sort_and_rank\<close> of its scored candidates, and
  among results of equal \<open>combined_score\<close> the order is the order of the candidates as
  the index produced them: nothing compares \<open>similarity_score\<close> or chunk ids. The output
  is a function of the candidate sequence, so the same sequence gives the same output.
\<close>

theorem ranking_sorted_and_stable:
  "(fst (search_similar_chunks sha faiss_search self query top_k thr flt now) = Inr rs \<longrightarrow>
      sorted_wrt (\<ge>) (map combined_score rs)
      \<and> rs = (case index self of
                 None \<Rightarrow> sort_and_rank top_k
                           (List.map_filter (fallback_entry (lower query) flt now) (chunk_metadata self))
               | Some ix \<Rightarrow> sort_and_rank top_k (List.map_filter
                   (process_hit self (case thr of None \<Rightarrow> similarity_threshold self | Some t \<Rightarrow> t) flt now)
                   (faiss_search ix (fst (embed_text sha (embedding_manager self) query True))
                      (min (top_k * 2) (int (length (f_vectors ix))))))))
   \<and> sorted_wrt (\<ge>) (map combined_score (fst (es_search_similar_chunks sha engine es_self query top_k thr es_flt hybrid now)))
   \<and> prefix (map chunk (filter (\<lambda>r. combined_score r = v) (sort_and_rank top_k cands)))
             (map chunk (filter (\<lambda>r. combined_score r = v) cands))"
proof (intro conjI impI)
  assume rs: "fst (search_similar_chunks sha faiss_search self query top_k thr flt now) = Inr rs"
  show 3: "rs = (case index self of
                 None \<Rightarrow> sort_and_rank top_k
                           (List.map_filter (fallback_entry (lower query) flt now) (chunk_metadata self))
               | Some ix \<Rightarrow> sort_and_rank top_k (List.map_filter
                   (process_hit self (case thr of None \<Rightarrow> similarity_threshold self | Some t \<Rightarrow> t) flt now)
                   (faiss_search ix (fst (embed_text sha (embedding_manager self) query True))
                      (min (top_k * 2) (int (length (f_vectors ix)))))))"
    by (rule search_returned [OF rs])
  show "sorted_wrt (\<ge>) (map combined_score rs)"
    unfolding 3 by (cases "index self") (simp_all add: sort_and_rank_sorted)
next
  show "sorted_wrt (\<ge>) (map combined_score (fst (es_search_similar_chunks sha engine es_self query top_k thr es_flt hybrid now)))"
    using es_search_results [of sha engine es_self query top_k thr es_flt hybrid now]
    by (auto simp: sort_and_rank_sorted)
  show "prefix (map chunk (filter (\<lambda>r. combined_score r = v) (sort_and_rank top_k cands)))
             (map chunk (filter (\<lambda>r. combined_score r = v) cands))"
    by (rule sort_and_rank_stable)
qed

text \<open>
  At the example store, the hit of similarity 0.7 listed before the hit of similarity 0.9:
  the search returns, and the combined scores come out as 0.71, 0.61.
\<close>

theorem ranking_sorted_and_stable_witness:
  "map_sum id (map combined_score)
      (fst (search_similar_chunks id (example_faiss [(0.6, 1), (0.2, 0)])
         (example_db (Some example_index)) ''x'' 10 None None 0)) = Inr [0.71, 0.61]
   \<and> sorted_wrt (\<ge>) [0.71, 0.61 :: real]"
proof -
  let ?S = "fst (search_similar_chunks id (example_faiss [(0.6, 1), (0.2, 0)])
         (example_db (Some example_index)) ''x'' 10 None None 0)"
  have "\<exists>rs. ?S = Inr rs \<and> map combined_score rs = [0.71, 0.61]"
    by (simp add: example_defs search_defs Let_def)
  then obtain rs where s: "?S = Inr rs" and c: "map combined_score rs = [0.71, 0.61]"
    by auto
  have "sorted_wrt (\<ge>) (map combined_score rs)"
    using ranking_sorted_and_stable [where sha = id and faiss_search = "example_faiss [(0.6, 1), (0.2, 0)]"
        and self = "example_db (Some example_index)" and query = "''x''" and top_k = 10
        and thr = None and flt = None and now = 0 and rs = rs] s
    by blast
  with s c show ?thesis by simp
qed

text \<open>
  The claim as stated fails: the two candidates below have the same similarity and the
  same combined score; listed as \<open>b, a\<close> they are returned as \<open>b, a\<close>, listed as
  \<open>a, b\<close> they are returned as \<open>a, b\<close>. The same candidate set gives two orders,
  and the first is not the order of the chunk ids.
\<close>

theorem ranking_ties_counterexample:
  "map_sum id (map (c_id \<circ> chunk)) (fst (search_similar_chunks id (example_faiss [(0.2, 0), (0.2, 1)])
       (example_db (Some example_index)) ''x'' 10 None None 0)) = Inr [''b'', ''a'']
   \<and> map_sum id (map (c_id \<circ> chunk)) (fst (search_similar_chunks id (example_faiss [(0.2, 1), (0.2, 0)])
       (example_db (Some example_index)) ''x'' 10 None None 0)) = Inr [''a'', ''b'']
   \<and> map_sum id (map combined_score) (fst (search_similar_chunks id (example_faiss [(0.2, 0), (0.2, 1)])
       (example_db (Some example_index)) ''x'' 10 None None 0)) = Inr [0.71, 0.71]
   \<and> map_sum id (map similarity_score) (fst (search_similar_chunks id (example_faiss [(0.2, 0), (0.2, 1)])
       (example_db (Some example_index)) ''x'' 10 None None 0)) = Inr [0.9, 0.9]
   \<and> set [(0.2 :: real, 0 :: int), (0.2, 1)] = set [(0.2, 1), (0.2, 0)]"
  by (simp add: example_defs search_defs insert_commute)

section \<open>Threshold, rank and truncation\<close>

text \<open>
  C4, as amended. With a FAISS index whose search accepts the call (the query has the
  dimension of the index and \<open>k = min(top_k * 2, ntotal)\<close> is positive, that is
  \<open>top_k \<ge> 1\<close> on a non-empty index), \<open>search_similar_chunks\<close> returns, and it keeps only
  candidates whose similarity is at least the threshold, and does so first: the kept
  candidates are those of the hits above the threshold alone. They are sorted, cut to
  \<open>top_k\<close> and numbered: the ranks are 1..K in order, and the number K of results is the
  smaller of \<open>top_k\<close> and the number of kept candidates. The results of the distributed
  variant are at or above the threshold and ranked 1..K as well. (Without an index the
  fallback path of the local variant ignores the threshold argument and uses the fixed
  threshold 0.1.)
\<close>

theorem search_threshold_rank_truncate:
  assumes "index self = Some ix"
    and "threshold = (case thr of None \<Rightarrow> similarity_threshold self | Some t \<Rightarrow> t)"
    and "q = fst (embed_text sha (embedding_manager self) query True)"
    and "k = min (top_k * 2) (int (length (f_vectors ix)))"
    and "length q = f_dim ix" and "0 < k"
    and "hits = faiss_search ix q k"
    and "cands = List.map_filter (process_hit self threshold flt now) hits"
  shows "(\<exists>rs. fst (search_similar_chunks sha faiss_search self query top_k thr flt now) = Inr rs
           \<and> map chunk rs = py_take top_k (map chunk (sort_key (\<lambda>x. - combined_score x) cands))
           \<and> map similarity_score rs = py_take top_k (map similarity_score (sort_key (\<lambda>x. - combined_score x) cands))
           \<and> (\<forall>r \<in> set rs. threshold \<le> similarity_score r)
           \<and> map rank rs = map int [1..<Suc (length rs)]
           \<and> length rs = min (nat top_k) (length cands))
       \<and> (\<forall>r \<in> set cands. threshold \<le> similarity_score r)
       \<and> cands = List.map_filter (process_hit self threshold flt now)
                    (filter (\<lambda>(score, idx). threshold \<le> 1.0 - score / 2.0) hits)
       \<and> (\<forall>r \<in> set (fst (es_search_similar_chunks sha engine es_self query top_k thr es_flt hybrid now)).
             (case thr of None \<Rightarrow> es_similarity_threshold es_self | Some t \<Rightarrow> t) \<le> similarity_score r)
       \<and> map rank (fst (es_search_similar_chunks sha engine es_self query top_k thr es_flt hybrid now))
           = map int [1..<Suc (length (fst (es_search_similar_chunks sha engine es_self query top_k thr es_flt hybrid now)))]"
proof -
  let ?es_rs = "fst (es_search_similar_chunks sha engine es_self query top_k thr es_flt hybrid now)"
  let ?es_thr = "case thr of None \<Rightarrow> es_similarity_threshold es_self | Some t \<Rightarrow> t"
  have es: "(\<forall>r \<in> set ?es_rs. ?es_thr \<le> similarity_score r)
            \<and> map rank ?es_rs = map int [1..<Suc (length ?es_rs)]"
  proof (cases "?es_rs = []")
    case True
    then show ?thesis by simp
  next
    case False
    then obtain es_hits where h: "?es_rs = sort_and_rank top_k (List.map_filter (es_process_hit ?es_thr now) es_hits)"
      using es_search_results [of sha engine es_self query top_k thr es_flt hybrid now] by blast
    have "?es_thr \<le> similarity_score r" if "r \<in> set ?es_rs" for r
    proof -
      from that obtain r0 i x where "es_process_hit ?es_thr now x = Some r0" "r = r0\<lparr>rank := i\<rparr>"
        unfolding h by (auto dest!: sort_and_rank_mem map_filter_mem)
      then show ?thesis using es_process_hit_Some(2) by fastforce
    qed
    moreover have "map rank ?es_rs = map int [1..<Suc (length ?es_rs)]"
      unfolding h by (rule sort_and_rank_ranks)
    ultimately show ?thesis by blast
  qed
  define rs where "rs = sort_and_rank top_k cands"
  have ret: "fst (search_similar_chunks sha faiss_search self query top_k thr flt now) = Inr rs"
    using assms by (simp add: search_primary rs_def)
  have top: "0 \<le> top_k"
    using assms(4,6) by simp
  have cands: "\<forall>r \<in> set cands. threshold \<le> similarity_score r"
    unfolding assms(8) using process_hit_Some(2) by (fastforce dest!: map_filter_mem)
  have pre: "List.map_filter (process_hit self threshold flt now) hs =
             List.map_filter (process_hit self threshold flt now)
                (filter (\<lambda>(score, idx). threshold \<le> 1.0 - score / 2.0) hs)" for hs
    by (rule map_filter_filter) (rule process_hit_below)
  have "\<forall>r \<in> set rs. threshold \<le> similarity_score r"
  proof
    fix r assume "r \<in> set rs"
    then obtain r0 i where "r0 \<in> set cands" "r = r0\<lparr>rank := i\<rparr>"
      unfolding rs_def by (auto dest!: sort_and_rank_mem)
    with cands show "threshold \<le> similarity_score r" by auto
  qed
  moreover have "map chunk rs = py_take top_k (map chunk (sort_key (\<lambda>x. - combined_score x) cands))"
    unfolding rs_def by (rule sort_and_rank_map) simp
  moreover have "map similarity_score rs = py_take top_k (map similarity_score (sort_key (\<lambda>x. - combined_score x) cands))"
    unfolding rs_def by (rule sort_and_rank_map) simp
  moreover have "map rank rs = map int [1..<Suc (length rs)]"
    unfolding rs_def by (rule sort_and_rank_ranks)
  moreover have "length rs = min (nat top_k) (length cands)"
    unfolding rs_def using top by (simp add: length_sort_and_rank length_py_take)
  ultimately have "\<exists>rs. fst (search_similar_chunks sha faiss_search self query top_k thr flt now) = Inr rs
           \<and> map chunk rs = py_take top_k (map chunk (sort_key (\<lambda>x. - combined_score x) cands))
           \<and> map similarity_score rs = py_take top_k (map similarity_score (sort_key (\<lambda>x. - combined_score x) cands))
           \<and> (\<forall>r \<in> set rs. threshold \<le> similarity_score r)
           \<and> map rank rs = map int [1..<Suc (length rs)]
           \<and> length rs = min (nat top_k) (length cands)"
    using ret by blast
  then show ?thesis
    using cands pre [of hits] assms(8) es by simp
qed

text \<open>
  At the example store (two vectors of dimension 2, a query vector of dimension 2) with
  the hits of distance 1.0 and 0.2, threshold 0.7 and \<open>top_k = 1\<close>: \<open>k\<close> is 2, the first
  hit (similarity 0.5) is dropped, the second is returned with rank 1.
\<close>

theorem search_threshold_rank_truncate_witness:
  "map_sum id (map rank) (fst (search_similar_chunks id (example_faiss [(1.0, 0), (0.2, 1)])
       (example_db (Some example_index)) ''x'' 1 (Some 0.7) None 0)) = Inr [1]
   \<and> map_sum id (map similarity_score) (fst (search_similar_chunks id (example_faiss [(1.0, 0), (0.2, 1)])
       (example_db (Some example_index)) ''x'' 1 (Some 0.7) None 0)) = Inr [0.9]
   \<and> map_sum id length (fst (search_similar_chunks id (example_faiss [(1.0, 0), (0.2, 1)])
       (example_db (Some example_index)) ''x'' 1 (Some 0.7) None 0)) = Inr (min (nat 1) 1)"
proof -
  let ?S = "fst (search_similar_chunks id (example_faiss [(1.0, 0), (0.2, 1)])
       (example_db (Some example_index)) ''x'' 1 (Some 0.7) None 0)"
  let ?cands = "List.map_filter (process_hit (example_db (Some example_index)) 0.7 None 0) [(1.0, 0), (0.2, 1)]"
  let ?q = "fst (embed_text id (embedding_manager (example_db (Some example_index))) ''x'' True)"
  have ix: "index (example_db (Some example_index)) = Some example_index"
    by (simp add: example_db_def)
  have q: "length ?q = f_dim example_index"
    by (simp add: example_defs embed_text_def np_random_def)
  have k: "(2 :: int) = min (1 * 2) (int (length (f_vectors example_index)))"
    by (simp add: example_index_def)
  have hits: "[(1.0, 0), (0.2, 1)] = example_faiss [(1.0, 0), (0.2, 1)] example_index ?q 2"
    by (simp add: example_faiss_def)
  have thr: "(0.7 :: real) = (case Some 0.7 of None \<Rightarrow> similarity_threshold (example_db (Some example_index)) | Some t \<Rightarrow> t)"
    by simp
  have kpos: "0 < (2 :: int)"
    by simp
  have cands: "map similarity_score ?cands = [0.9]"
    by (simp add: example_defs search_defs)
  have len: "length ?cands = 1"
    using cands by (metis length_map list.size(3,4) One_nat_def add_0)
  have "\<exists>rs. ?S = Inr rs
        \<and> map similarity_score rs = py_take 1 (map similarity_score (sort_key (\<lambda>x. - combined_score x) ?cands))
        \<and> map rank rs = map int [1..<Suc (length rs)]
        \<and> length rs = min (nat 1) (length ?cands)"
    using search_threshold_rank_truncate [where self = "example_db (Some example_index)"
        and ix = example_index and threshold = "0.7" and thr = "Some 0.7" and q = ?q and k = 2
        and hits = "[(1.0, 0), (0.2, 1)]" and faiss_search = "example_faiss [(1.0, 0), (0.2, 1)]"
        and sha = id and query = "''x''" and top_k = 1 and flt = None and now = 0
        and cands = ?cands, OF ix thr refl k q kpos hits refl]
    by blast
  then obtain rs where rs: "?S = Inr rs"
    "map similarity_score rs = py_take 1 (map similarity_score (sort_key (\<lambda>x. - combined_score x) ?cands))"
    "map rank rs = map int [1..<Suc (length rs)]"
    "length rs = min (nat 1) (length ?cands)"
    by blast
  have "map similarity_score (sort_key (\<lambda>x. - combined_score x) ?cands) = [0.9]"
    by (simp add: example_defs search_defs)
  with rs len show ?thesis
    by (simp add: py_take_def)
qed

text \<open>
  The claim as stated fails without a FAISS index: with threshold 0.7 the fallback path
  returns two results of similarity 0.5.
\<close>

theorem threshold_fallback_counterexample:
  "map_sum id (map similarity_score)
      (fst (search_similar_chunks id (example_faiss []) (example_db None) ''x y'' 10 (Some 0.7) None 0))
     = Inr [0.5, 0.5]
   \<and> (0.5 :: real) < 0.7"
  by (simp add: example_defs search_defs)

section \<open>Context compression\<close>

text \<open>
  C5. The claim: \<open>compress_context\<close> never returns more than \<open>target_length\<close> characters
  plus the ellipsis marker, and truncates the last kept paragraph only when at least 100
  characters of budget remain. The code adds up the lengths of the kept sections
  (\<open>current_length += len(section)\<close>) and then joins them with \<open>\n\n\<close>, which it did not
  count. On the six paragraphs \<open>aa\<close>, \<open>bb\<close>, \<open>cc\<close>, \<open>dd\<close>, \<open>ee\<close>, \<open>x\<close> (21 characters)
  with \<open>target_length = 10\<close> it keeps the first five, ten characters by its count, and
  returns 18 characters: more than 10 plus the three of the marker.
\<close>

theorem compress_context_exceeds_target:
  "compress_context (''aa'' @ [NL, NL] @ ''bb'' @ [NL, NL] @ ''cc'' @ [NL, NL] @ ''dd'' @ [NL, NL] @ ''ee'' @ [NL, NL] @ ''x'') 10
     = ''aa'' @ [NL, NL] @ ''bb'' @ [NL, NL] @ ''cc'' @ [NL, NL] @ ''dd'' @ [NL, NL] @ ''ee''
   \<and> length (''aa'' @ [NL, NL] @ ''bb'' @ [NL, NL] @ ''cc'' @ [NL, NL] @ ''dd'' @ [NL, NL] @ ''ee'') = 18
   \<and> (18 :: int) > 10 + int (length ''...'')"
  by code_simp

section \<open>Embedding: determinism and cache\<close>

lemma embed_text_keeps_cache:
  assumes "model s = Some encode" and "embedding_cache s h = Some v"
  shows "embedding_cache (snd (embed_text sha s t uc)) h = Some v
       \<and> model (snd (embed_text sha s t uc)) = Some encode"
  using assms by (auto simp: embed_text_def Let_def split: option.splits)

lemma embed_texts_keep_cache:
  assumes "model s = Some encode" and "embedding_cache s h = Some v"
  shows "embedding_cache (foldl (\<lambda>s t. snd (embed_text sha s t True)) s ts) h = Some v
       \<and> model (foldl (\<lambda>s t. snd (embed_text sha s t True)) s ts) = Some encode"
  using assms
proof (induction ts arbitrary: s)
  case Nil
  then show ?case by simp
next
  case (Cons t ts)
  from embed_text_keeps_cache [OF Cons.prems, of sha t True]
  show ?case using Cons.IH by simp
qed

lemma embed_text_caches:
  assumes "model s = Some encode"
  shows "embedding_cache (snd (embed_text sha s text True)) (get_text_hash sha text)
           = Some (fst (embed_text sha s text True))
       \<and> model (snd (embed_text sha s text True)) = Some encode"
  using assms by (auto simp: embed_text_def Let_def split: option.splits)

lemma embed_text_hit:
  assumes "model s = Some encode" and "embedding_cache s (get_text_hash sha text) = Some v"
  shows "embed_text sha s text True = (v, s)"
  using assms by (simp add: embed_text_def Let_def)

lemma concat_batches: "0 < n \<Longrightarrow> concat (batches n xs) = xs"
proof (induction n xs rule: batches.induct)
  case (1 n xs)
  show ?case
  proof (cases "xs = []")
    case True
    then show ?thesis by (subst batches.simps) simp
  next
    case False
    with 1 have "concat (batches n (drop n xs)) = drop n xs" by simp
    with False 1(2) show ?thesis by (subst batches.simps) simp
  qed
qed

lemma embed_batch_encode:
  assumes "model self = Some encode" and "0 < batch_size"
  shows "embed_batch self texts batch_size =
           Inr (map encode texts,
                self\<lparr>model_calls := model_calls self + length (batches (nat batch_size) texts)\<rparr>)"
proof -
  have "concat (map (map encode) (batches (nat batch_size) texts)) = map encode (concat (batches (nat batch_size) texts))"
    by (simp add: map_concat)
  also have "\<dots> = map encode texts"
    using assms(2) by (simp add: concat_batches)
  finally show ?thesis
    using assms by (simp add: embed_batch_def Let_def)
qed

text \<open>
  C7, as amended. When the model is available, two invocations of \<open>embed_text\<close> with
  the same text return equal vectors: one right after the other with either setting of
  \<open>use_cache\<close>, and also with any other cached embeddings requested in between. (When the
  model is unavailable the code returns a fresh random vector on every call.)
\<close>

theorem embed_text_deterministic_with_model:
  assumes "model self = Some encode"
  shows "fst (embed_text sha (snd (embed_text sha self text use_cache)) text use_cache)
           = fst (embed_text sha self text use_cache)
       \<and> fst (embed_text sha
               (foldl (\<lambda>s t. snd (embed_text sha s t True)) (snd (embed_text sha self text True)) others)
               text True)
           = fst (embed_text sha self text True)"
proof
  show "fst (embed_text sha (snd (embed_text sha self text use_cache)) text use_cache)
           = fst (embed_text sha self text use_cache)"
    using assms by (auto simp: embed_text_def Let_def split: option.splits)
next
  let ?s1 = "snd (embed_text sha self text True)"
  let ?v = "fst (embed_text sha self text True)"
  let ?s2 = "foldl (\<lambda>s t. snd (embed_text sha s t True)) ?s1 others"
  have c1: "embedding_cache ?s1 (get_text_hash sha text) = Some ?v" and m1: "model ?s1 = Some encode"
    using embed_text_caches [OF assms, of sha "text"] by simp_all
  have c2: "embedding_cache ?s2 (get_text_hash sha text) = Some ?v" and m2: "model ?s2 = Some encode"
    using embed_texts_keep_cache [OF m1 c1, of sha others] by simp_all
  show "fst (embed_text sha ?s2 text True) = ?v"
    using embed_text_hit [OF m2 c2] by simp
qed

text \<open>With the example model, the text \<open>ab\<close> is embedded as \<open>[2, 0]\<close> both times.\<close>

theorem embed_text_deterministic_with_model_witness:
  "fst (embed_text id (snd (embed_text id (example_model_manager Map.empty) ''ab'' True)) ''ab'' True) = [2, 0]
   \<and> fst (embed_text id (example_model_manager Map.empty) ''ab'' True) = [2, 0]"
proof -
  have m: "model (example_model_manager Map.empty) = Some example_encode"
    by (simp add: example_model_manager_def)
  have "fst (embed_text id (example_model_manager Map.empty) ''ab'' True) = [2, 0]"
    by (simp add: embed_text_def example_model_manager_def example_encode_def Let_def)
  with embed_text_deterministic_with_model [OF m, of id "''ab''" True]
  show ?thesis by simp
qed

text \<open>
  The claim as stated fails without a model: two consecutive calls with the text \<open>x\<close>
  draw \<open>[0, 1]\<close> and then \<open>[2, 3]\<close> from the random generator.
\<close>

theorem embed_text_random_counterexample:
  "embed_text id example_random_manager ''x'' True = ([0, 1], example_random_manager\<lparr>rng_pos := 2\<rparr>)
   \<and> embed_text id (example_random_manager\<lparr>rng_pos := 2\<rparr>) ''x'' True
       = ([2, 3], example_random_manager\<lparr>rng_pos := 4\<rparr>)
   \<and> [0, 1] \<noteq> [2, 3 :: real]"
  by (simp add: embed_text_def np_random_def example_random_manager_def)

text \<open>
  C8, as amended. With the model available and a positive batch size, \<open>embed_batch\<close>
  returns the model's encoding of each text, position by position; it never reads or
  writes the cache and calls the model once per batch. \<open>embed_text\<close> returns the stored
  vector on a cache hit and leaves the manager as it was, so the model is not invoked;
  on a miss it calls the model once and stores the vector. Hence \<open>embed_batch(texts)[i]\<close>
  equals \<open>embed_text(texts[i])\<close> whenever the cache has no entry for the hash of
  \<open>texts[i]\<close> or holds the model's encoding of it.
\<close>

theorem embed_batch_and_cache:
  assumes "model self = Some encode" and "0 < batch_size"
  shows "embed_batch self texts batch_size =
           Inr (map encode texts,
                self\<lparr>model_calls := model_calls self + length (batches (nat batch_size) texts)\<rparr>)
       \<and> (\<forall>v. embedding_cache self (get_text_hash sha text) = Some v \<longrightarrow>
             embed_text sha self text True = (v, self))
       \<and> (embedding_cache self (get_text_hash sha text) = None \<longrightarrow>
             fst (embed_text sha self text True) = encode text
             \<and> model_calls (snd (embed_text sha self text True)) = model_calls self + 1
             \<and> embedding_cache (snd (embed_text sha self text True)) (get_text_hash sha text) = Some (encode text))
       \<and> (\<forall>i < length texts.
             embedding_cache self (get_text_hash sha (texts ! i)) = None
             \<or> embedding_cache self (get_text_hash sha (texts ! i)) = Some (encode (texts ! i)) \<longrightarrow>
             map encode texts ! i = fst (embed_text sha self (texts ! i) True))"
  using assms embed_batch_encode [OF assms]
  by (auto simp: embed_text_def Let_def split: option.splits)

text \<open>
  A batch of two texts with batch size 1 (two calls of the model), a miss of
  \<open>embed_text\<close>, and a hit that returns the stored \<open>[7, 7]\<close> with the manager unchanged.
\<close>

theorem embed_batch_and_cache_witness:
  "embed_batch (example_model_manager Map.empty) [''ab'', ''c''] 1
     = Inr ([[2, 0], [1, 0]], (example_model_manager Map.empty)\<lparr>model_calls := 2\<rparr>)
   \<and> fst (embed_text id (example_model_manager Map.empty) ''c'' True) = [1, 0]
   \<and> embed_text id (example_model_manager [get_text_hash id ''ab'' \<mapsto> [7, 7]]) ''ab'' True
       = ([7, 7], example_model_manager [get_text_hash id ''ab'' \<mapsto> [7, 7]])"
proof -
  have m: "model (example_model_manager c) = Some example_encode" for c
    by (simp add: example_model_manager_def)
  have b: "length (batches (nat 1) [''ab'', ''c'']) = 2"
    by code_simp
  have c: "embedding_cache (example_model_manager [get_text_hash id ''ab'' \<mapsto> [7, 7]]) (get_text_hash id ''ab'') = Some [7, 7]"
    by (simp add: example_model_manager_def)
  have e: "embedding_cache (example_model_manager Map.empty) (get_text_hash id ''c'') = None"
    by (simp add: example_model_manager_def)
  show ?thesis
    using embed_batch_and_cache [OF m, of 1 Map.empty "[''ab'', ''c'']" id "''c''"]
      embed_batch_and_cache [OF m, of 1 "[get_text_hash id ''ab'' \<mapsto> [7, 7]]" "[]" id "''ab''"]
      b c e
    by (simp add: example_encode_def example_model_manager_def)
qed

text \<open>
  The claim as stated fails: with the vector of \<open>ab\<close> in the cache, \<open>embed_batch\<close>
  still calls the model (the counter goes from 0 to 1), where \<open>embed_text\<close> returns the
  stored vector and leaves the counter at 0.
\<close>

theorem embed_batch_ignores_cache_counterexample:
  "embedding_cache (example_model_manager [get_text_hash id ''ab'' \<mapsto> example_encode ''ab'']) (get_text_hash id ''ab'')
     = Some (example_encode ''ab'')
   \<and> embed_batch (example_model_manager [get_text_hash id ''ab'' \<mapsto> example_encode ''ab'']) [''ab''] 32
     = Inr ([example_encode ''ab''],
            (example_model_manager [get_text_hash id ''ab'' \<mapsto> example_encode ''ab''])\<lparr>model_calls := 1\<rparr>)
   \<and> model_calls (example_model_manager [get_text_hash id ''ab'' \<mapsto> example_encode ''ab'']) = 0
   \<and> embed_text id (example_model_manager [get_text_hash id ''ab'' \<mapsto> example_encode ''ab'']) ''ab'' True
     = (example_encode ''ab'', example_model_manager [get_text_hash id ''ab'' \<mapsto> example_encode ''ab''])"
  by (simp add: embed_batch_def embed_text_def example_model_manager_def get_text_hash_def
        batches.simps Let_def)

section \<open>Repeated ingestion\<close>

lemma np_random_each_props:
  "length (fst (np_random_each em ts)) = length ts
   \<and> (\<forall>v \<in> set (fst (np_random_each em ts)). length v = embedding_dim em)
   \<and> model (snd (np_random_each em ts)) = model em
   \<and> embedding_dim (snd (np_random_each em ts)) = embedding_dim em"
proof (induction ts arbitrary: em)
  case Nil
  then show ?case by simp
next
  case (Cons t ts)
  let ?em1 = "snd (np_random em)"
  have 1: "model ?em1 = model em" "embedding_dim ?em1 = embedding_dim em"
    "length (fst (np_random em)) = embedding_dim em"
    by (simp_all add: np_random_def)
  from Cons [of ?em1] 1 show ?case
    by (simp add: split_beta Let_def)
qed

lemma embed_batch_32:
  "\<exists>embs em1. embed_batch em texts 32 = Inr (embs, em1)
     \<and> length embs = length texts
     \<and> set embs \<subseteq> vectors_of em
     \<and> vectors_of em1 = vectors_of em"
proof (cases "model em")
  case None
  with np_random_each_props [of em texts] show ?thesis
    by (auto simp: embed_batch_def vectors_of_def split_beta
        intro!: exI [of _ "fst (np_random_each em texts)"] exI [of _ "snd (np_random_each em texts)"])
next
  case (Some encode)
  then have "embed_batch em texts 32 =
           Inr (map encode texts, em\<lparr>model_calls := model_calls em + length (batches (nat 32) texts)\<rparr>)"
    by (simp add: embed_batch_encode)
  with Some show ?thesis by (auto simp: vectors_of_def)
qed

lemma length_alist_update:
  "length (AList.update k v al) = (if k \<in> fst ` set al then length al else Suc (length al))"
  by (induction al) auto

lemma add_chunk_to_index_ok:
  assumes "keys_below_next self"
    and "case index self of None \<Rightarrow> True | Some ix \<Rightarrow> length v = f_dim ix"
  shows "\<exists>self1. add_chunk_to_index self c v = (True, self1)
           \<and> keys_below_next self1
           \<and> length (chunk_metadata self1) = Suc (length (chunk_metadata self))
           \<and> embedding_manager self1 = embedding_manager self
           \<and> map_option f_dim (index self1) = map_option f_dim (index self)"
proof -
  define entry where "entry = \<lparr>m_chunk_id = c_id c, m_content = c_content c, m_source = c_source c,
                   m_document_id = c_document_id c, m_chunk_index = c_chunk_index c,
                   m_metadata = c_metadata c, m_created_at = c_created_at c,
                   m_index_position = next_index self\<rparr>"
  define cm where "cm = AList.update (next_index self) entry (chunk_metadata self)"
  have fresh: "next_index self \<notin> fst ` set (chunk_metadata self)"
    using assms(1) by (auto simp: keys_below_next_def)
  have len: "length cm = Suc (length (chunk_metadata self))"
    using fresh by (simp add: cm_def length_alist_update)
  have keys: "\<forall>k \<in> fst ` set cm. k < next_index self + 1"
    using assms(1) by (auto simp: cm_def AList.dom_update keys_below_next_def)
  show ?thesis
  proof (cases "index self")
    case None
    then have "add_chunk_to_index self c v =
        (True, self\<lparr>chunk_metadata := cm, next_index := next_index self + 1\<rparr>)"
      by (simp add: add_chunk_to_index_def Let_def cm_def entry_def)
    with None len keys show ?thesis
      by (simp add: keys_below_next_def)
  next
    case (Some ix)
    with assms(2) have "length v = f_dim ix" by simp
    with Some have "add_chunk_to_index self c v =
        (True, self\<lparr>chunk_metadata := cm, index := Some (ix\<lparr>f_vectors := f_vectors ix @ [v]\<rparr>),
                    next_index := next_index self + 1\<rparr>)"
      by (simp add: add_chunk_to_index_def Let_def cm_def entry_def faiss_add_def)
    with Some len keys show ?thesis
      by (simp add: keys_below_next_def)
  qed
qed

lemma add_chunks_ok:
  assumes "keys_below_next self"
    and "case index self of None \<Rightarrow> True | Some ix \<Rightarrow> \<forall>v \<in> snd ` set pairs. length v = f_dim ix"
  shows "\<exists>self1. add_chunks self pairs n = (n + length pairs, self1)
           \<and> keys_below_next self1
           \<and> length (chunk_metadata self1) = length (chunk_metadata self) + length pairs
           \<and> embedding_manager self1 = embedding_manager self
           \<and> map_option f_dim (index self1) = map_option f_dim (index self)"
  using assms
proof (induction pairs arbitrary: self n)
  case Nil
  then show ?case by simp
next
  case (Cons p pairs)
  obtain c v where p: "p = (c, v)" by (cases p)
  have "case index self of None \<Rightarrow> True | Some ix \<Rightarrow> length v = f_dim ix"
    using Cons.prems(2) p by (auto split: option.splits)
  from add_chunk_to_index_ok [OF Cons.prems(1) this, of c]
  obtain self1 where s1: "add_chunk_to_index self c v = (True, self1)"
    "keys_below_next self1"
    "length (chunk_metadata self1) = Suc (length (chunk_metadata self))"
    "embedding_manager self1 = embedding_manager self"
    "map_option f_dim (index self1) = map_option f_dim (index self)"
    by blast
  have "case index self1 of None \<Rightarrow> True | Some ix \<Rightarrow> \<forall>v \<in> snd ` set pairs. length v = f_dim ix"
    using Cons.prems(2) s1(5) by (auto split: option.splits)
  from Cons.IH [OF s1(2) this, of "n + 1"]
  obtain self2 where s2: "add_chunks self1 pairs (n + 1) = (n + 1 + length pairs, self2)"
    "keys_below_next self2"
    "length (chunk_metadata self2) = length (chunk_metadata self1) + length pairs"
    "embedding_manager self2 = embedding_manager self1"
    "map_option f_dim (index self2) = map_option f_dim (index self1)"
    by blast
  show ?case
    using s1 s2 p by simp
qed

lemma add_document_ok:
  assumes "keys_below_next self" and "index_accepts self"
  shows "\<exists>n self1. add_document self doc p now = Inr (n, self1)
           \<and> n = length (create_chunks p doc now)
           \<and> keys_below_next self1 \<and> index_accepts self1
           \<and> get_chunk_count self1 = get_chunk_count self + length (create_chunks p doc now)"
proof -
  define reg where "reg = AList.update (d_id doc)
                      \<lparr>r_title = d_title doc, r_source = d_source doc,
                       r_source_type = d_source_type doc, r_authority_score = d_authority_score doc,
                       r_created_at = d_created_at doc, r_last_updated = d_last_updated doc,
                       r_metadata = d_metadata doc\<rparr> (document_registry self)"
  define self0 where "self0 = self\<lparr>document_registry := reg\<rparr>"
  define chunks where "chunks = create_chunks p doc now"
  have k0: "keys_below_next self0" and a0: "index_accepts self0"
    using assms by (auto simp: self0_def keys_below_next_def index_accepts_def split: option.splits)
  show ?thesis
  proof (cases "chunks = []")
    case True
    then have "add_document self doc p now = Inr (0, self0)"
      by (simp add: add_document_def Let_def self0_def reg_def chunks_def)
    with True k0 a0 show ?thesis
      by (simp add: chunks_def [symmetric] get_chunk_count_def self0_def)
  next
    case False
    obtain embs em1 where e: "embed_batch (embedding_manager self0) (map c_content chunks) 32 = Inr (embs, em1)"
      "length embs = length (map c_content chunks)"
      "set embs \<subseteq> vectors_of (embedding_manager self0)"
      "vectors_of em1 = vectors_of (embedding_manager self0)"
      using embed_batch_32 [of "embedding_manager self0" "map c_content chunks"] by blast
    define self1 where "self1 = self0\<lparr>embedding_manager := em1\<rparr>"
    have k1: "keys_below_next self1"
      using k0 by (simp add: self1_def keys_below_next_def)
    have a1: "index_accepts self1"
      using a0 e(4) by (auto simp: self1_def index_accepts_def split: option.splits)
    have dims: "case index self1 of None \<Rightarrow> True
                | Some ix \<Rightarrow> \<forall>v \<in> snd ` set (zip chunks embs). length v = f_dim ix"
    proof (cases "index self1")
      case None
      then show ?thesis by simp
    next
      case (Some ix)
      have acc: "\<forall>v \<in> vectors_of em1. length v = f_dim ix"
        using a1 Some by (simp add: index_accepts_def self1_def)
      have "length v = f_dim ix" if "v \<in> snd ` set (zip chunks embs)" for v
      proof -
        from that have "v \<in> set embs"
          by (auto dest: set_zip_rightD)
        with e(3,4) have "v \<in> vectors_of em1" by auto
        with acc show ?thesis by blast
      qed
      with Some show ?thesis by simp
    qed
    from add_chunks_ok [OF k1 dims, of 0]
    obtain self2 where s2: "add_chunks self1 (zip chunks embs) 0 = (0 + length (zip chunks embs), self2)"
      "keys_below_next self2"
      "length (chunk_metadata self2) = length (chunk_metadata self1) + length (zip chunks embs)"
      "embedding_manager self2 = embedding_manager self1"
      "map_option f_dim (index self2) = map_option f_dim (index self1)"
      by blast
    have a2: "index_accepts self2"
      using a1 s2(4,5) by (auto simp: index_accepts_def split: option.splits)
    have "add_document self doc p now = Inr (add_chunks self1 (zip chunks embs) 0)"
      using False e(1)
      by (simp add: add_document_def Let_def self0_def reg_def chunks_def self1_def)
    with s2 e(2) a2 show ?thesis
      by (simp add: chunks_def [symmetric] get_chunk_count_def self1_def self0_def)
  qed
qed

lemma fold_update_keys:
  "fst ` set (fold (\<lambda>(k, v). AList.update k v) acts docs) = fst ` set docs \<union> fst ` set acts"
  by (induction acts arbitrary: docs) (auto simp: AList.dom_update split_beta)

lemma fold_update_length:
  "fst ` set acts \<subseteq> fst ` set docs \<Longrightarrow>
   length (fold (\<lambda>(k, v). AList.update k v) acts docs) = length docs"
proof (induction acts arbitrary: docs)
  case Nil
  then show ?case by simp
next
  case (Cons a acts)
  obtain k v where a: "a = (k, v)" by (cases a)
  have "fst ` set acts \<subseteq> fst ` set (AList.update k v docs)"
    using Cons.prems by (auto simp: AList.dom_update)
  from Cons.IH [OF this] Cons.prems a show ?case
    by (simp add: length_alist_update)
qed

lemma create_chunks_ids:
  "map c_id (create_chunks p doc now) = map c_id (create_chunks p doc now')"
  by (simp add: create_chunks_def create_chunk_def Let_def split_beta)

lemma create_chunks_length:
  "length (create_chunks p doc now) = length (smart_chunk_text p (d_content doc) None)"
  by (simp add: create_chunks_def Let_def)

lemma doc_body_keys:
  "length embs = length chunks \<Longrightarrow>
   map fst (map (doc_body doc now) (zip chunks embs)) = map c_id chunks"
  by (induction chunks embs rule: list_induct2') (simp_all add: doc_body_def)

lemma es_add_document_state:
  assumes "es self = Some client"
  shows "\<exists>embs client1. es (es_after_add_document self doc p now) = Some client1
           \<and> es_fail client1 = es_fail client
           \<and> length embs = length (create_chunks p doc now)
           \<and> es_docs client1 =
               (if es_fail client = None \<and> create_chunks p doc now \<noteq> []
                then fold (\<lambda>(k, v). AList.update k v)
                       (map (doc_body doc now) (zip (create_chunks p doc now) embs)) (es_docs client)
                else es_docs client)"
proof -
  define chunks where "chunks = create_chunks p doc now"
  obtain embs em1 where e: "embed_batch (es_embedding_manager self) (map c_content chunks) 32 = Inr (embs, em1)"
    "length embs = length (map c_content chunks)"
    using embed_batch_32 [of "es_embedding_manager self" "map c_content chunks"] by blast
  show ?thesis
    using assms e
    by (intro exI [of _ embs])
       (auto simp: es_after_add_document_def es_add_document_def Let_def chunks_def [symmetric]
          es_bulk_def es_refresh_def split: option.splits)
qed

lemma es_add_document_none:
  assumes "es self = None"
  shows "es_after_add_document self doc p now = self"
  using assms by (simp add: es_after_add_document_def es_add_document_def)

lemma es_reingest_count:
  "es_chunk_count (es_after_add_document (es_after_add_document self doc p t1) doc p t2)
     = es_chunk_count (es_after_add_document self doc p t1)"
proof (cases "es self")
  case None
  then show ?thesis by (simp add: es_add_document_none)
next
  case (Some client)
  let ?self1 = "es_after_add_document self doc p t1"
  from es_add_document_state [OF Some, of doc p t1]
  obtain embs1 client1 where 1: "es ?self1 = Some client1" "es_fail client1 = es_fail client"
    "length embs1 = length (create_chunks p doc t1)"
    "es_docs client1 =
       (if es_fail client = None \<and> create_chunks p doc t1 \<noteq> []
        then fold (\<lambda>(k, v). AList.update k v)
               (map (doc_body doc t1) (zip (create_chunks p doc t1) embs1)) (es_docs client)
        else es_docs client)"
    by blast
  from es_add_document_state [OF 1(1), of doc p t2]
  obtain embs2 client2 where 2: "es (es_after_add_document ?self1 doc p t2) = Some client2"
    "length embs2 = length (create_chunks p doc t2)"
    "es_docs client2 =
       (if es_fail client1 = None \<and> create_chunks p doc t2 \<noteq> []
        then fold (\<lambda>(k, v). AList.update k v)
               (map (doc_body doc t2) (zip (create_chunks p doc t2) embs2)) (es_docs client1)
        else es_docs client1)"
    by blast
  have "length (es_docs client2) = length (es_docs client1)"
  proof (cases "es_fail client = None \<and> create_chunks p doc t2 \<noteq> []")
    case False
    with 1(2) 2(3) show ?thesis by auto
  next
    case True
    then have ne1: "create_chunks p doc t1 \<noteq> []"
      using create_chunks_length [of p doc t1] create_chunks_length [of p doc t2] by auto
    have k2: "fst ` set (map (doc_body doc t2) (zip (create_chunks p doc t2) embs2))
                = set (map c_id (create_chunks p doc t2))"
      using doc_body_keys [OF 2(2), of doc t2] by (metis set_map)
    have k1: "fst ` set (map (doc_body doc t1) (zip (create_chunks p doc t1) embs1))
                = set (map c_id (create_chunks p doc t1))"
      using doc_body_keys [OF 1(3), of doc t1] by (metis set_map)
    have "set (map c_id (create_chunks p doc t2)) \<subseteq> fst ` set (es_docs client1)"
      using True ne1 1(4) k1 create_chunks_ids [of p doc t1 t2]
      by (simp add: fold_update_keys)
    with k2 have "fst ` set (map (doc_body doc t2) (zip (create_chunks p doc t2) embs2))
                    \<subseteq> fst ` set (es_docs client1)"
      by simp
    from fold_update_length [OF this] True 1(2) 2(3) show ?thesis by simp
  qed
  with 1(1) 2(1) show ?thesis by (simp add: es_chunk_count_def)
qed

lemma after_add_document_count:
  assumes "keys_below_next self" and "index_accepts self"
  shows "keys_below_next (after_add_document self doc p now)
       \<and> index_accepts (after_add_document self doc p now)
       \<and> get_chunk_count (after_add_document self doc p now)
           = get_chunk_count self + length (smart_chunk_text p (d_content doc) None)"
  using add_document_ok [OF assms, of doc p now]
  by (auto simp: after_add_document_def create_chunks_length)

text \<open>
  C9, as amended. In the distributed variant, ingesting the same document a second time
  leaves the index with the chunk count it had after the first ingestion: the chunks are
  indexed under the ids \<open>d_chunk_0000\<close>, \<open>d_chunk_0001\<close>, ..., which the second ingestion
  overwrites. In the local variant every ingestion appends its chunks under fresh index
  positions: on a store whose keys are below \<open>next_index\<close> and whose FAISS index (if any)
  accepts the vectors, each ingestion of the document raises the chunk count by the
  number of chunks of the document, the second as much as the first.
\<close>

theorem reingestion_chunk_count:
  "es_chunk_count (es_after_add_document (es_after_add_document es_self doc p t1) doc p t2)
     = es_chunk_count (es_after_add_document es_self doc p t1)
   \<and> (keys_below_next self \<and> index_accepts self \<longrightarrow>
        get_chunk_count (after_add_document self doc p t1)
          = get_chunk_count self + length (smart_chunk_text p (d_content doc) None)
        \<and> get_chunk_count (after_add_document (after_add_document self doc p t1) doc p t2)
          = get_chunk_count (after_add_document self doc p t1)
            + length (smart_chunk_text p (d_content doc) None))"
proof (intro conjI impI)
  show "es_chunk_count (es_after_add_document (es_after_add_document es_self doc p t1) doc p t2)
     = es_chunk_count (es_after_add_document es_self doc p t1)"
    by (rule es_reingest_count)
next
  assume a: "keys_below_next self \<and> index_accepts self"
  then show "get_chunk_count (after_add_document self doc p t1)
          = get_chunk_count self + length (smart_chunk_text p (d_content doc) None)"
    using after_add_document_count by blast
  from a have "keys_below_next (after_add_document self doc p t1)"
    "index_accepts (after_add_document self doc p t1)"
    using after_add_document_count by blast+
  then show "get_chunk_count (after_add_document (after_add_document self doc p t1) doc p t2)
          = get_chunk_count (after_add_document self doc p t1)
            + length (smart_chunk_text p (d_content doc) None)"
    using after_add_document_count by blast
qed

text \<open>
  The example document has one chunk: the empty local store holds 1 chunk after the first
  ingestion and 2 after the second; the distributed store holds as many after the second
  as after the first.
\<close>

theorem reingestion_chunk_count_witness:
  "length (smart_chunk_text example_processor (d_content example_document) None) = 1
   \<and> get_chunk_count (after_add_document example_empty_db example_document example_processor 0) = 0 + 1
   \<and> get_chunk_count (after_add_document
        (after_add_document example_empty_db example_document example_processor 0)
        example_document example_processor 5) = 0 + 1 + 1
   \<and> es_chunk_count (es_after_add_document
        (es_after_add_document (example_es_db (Some \<lparr>es_fail = None, es_docs = []\<rparr>))
           example_document example_processor 0) example_document example_processor 5)
      = es_chunk_count (es_after_add_document (example_es_db (Some \<lparr>es_fail = None, es_docs = []\<rparr>))
           example_document example_processor 0)"
proof -
  have k: "keys_below_next example_empty_db \<and> index_accepts example_empty_db"
    by (simp add: keys_below_next_def index_accepts_def example_empty_db_def)
  have n: "length (smart_chunk_text example_processor (d_content example_document) None) = 1"
    by code_simp
  have c: "get_chunk_count example_empty_db = 0"
    by (simp add: get_chunk_count_def example_empty_db_def)
  show ?thesis
    using reingestion_chunk_count [of "example_es_db (Some \<lparr>es_fail = None, es_docs = []\<rparr>)"
        example_document example_processor 0 5 example_empty_db] k n c
    by simp
qed

text \<open>
  The claim as stated fails in the local variant: after two ingestions of the example
  document the store holds two entries, both with the chunk id \<open>d_chunk_0000\<close>.
\<close>

theorem reingestion_duplicates_counterexample:
  "get_chunk_count (after_add_document example_empty_db example_document example_processor 0) = 1
   \<and> get_chunk_count (after_add_document
        (after_add_document example_empty_db example_document example_processor 0)
        example_document example_processor 0) = 2
   \<and> map m_chunk_id (map snd (chunk_metadata (after_add_document
        (after_add_document example_empty_db example_document example_processor 0)
        example_document example_processor 0))) = [''d_chunk_0000'', ''d_chunk_0000'']"
  by code_simp

section \<open>Unavailable index backend\<close>

text \<open>
  C10. When the Elasticsearch backend is unavailable, because the client is absent
  (\<open>self.es\<close> is \<open>None\<close>) or because its requests fail, \<open>add_document\<close> returns 0,
  \<open>search_similar_chunks\<close> returns the empty list and \<open>delete_document\<close> returns
  \<open>False\<close>; the index is left as it was and no exception escapes: \<open>add_document\<close>, the
  one operation whose model can raise, returns a value.
\<close>

theorem es_unavailable_returns_typed_results:
  assumes "es self = None \<or> (\<exists>client e. es self = Some client \<and> es_fail client = Some e)"
  shows "(\<exists>self1. es_add_document self doc p now = Inr (0, self1) \<and> es self1 = es self)
       \<and> fst (es_search_similar_chunks sha engine self query top_k thr flt hybrid now) = []
       \<and> es (snd (es_search_similar_chunks sha engine self query top_k thr flt hybrid now)) = es self
       \<and> es_delete_document self document_id = (False, self)"
proof -
  obtain embs em1 where e:
    "embed_batch (es_embedding_manager self) (map c_content (create_chunks p doc now)) 32 = Inr (embs, em1)"
    using embed_batch_32 [of "es_embedding_manager self" "map c_content (create_chunks p doc now)"]
    by blast
  have add: "\<exists>self1. es_add_document self doc p now = Inr (0, self1) \<and> es self1 = es self"
    using assms e
    by (auto simp: es_add_document_def Let_def es_bulk_def split: option.splits)
  have search: "fst (es_search_similar_chunks sha engine self query top_k thr flt hybrid now) = []
       \<and> es (snd (es_search_similar_chunks sha engine self query top_k thr flt hybrid now)) = es self"
    using assms
    by (auto simp: es_search_similar_chunks_def Let_def es_search_def split: option.splits prod.splits)
  have del: "es_delete_document self document_id = (False, self)"
    using assms
    by (auto simp: es_delete_document_def es_delete_by_query_def split: option.splits)
  from add search del show ?thesis by blast
qed

text \<open>The three operations on a database without a client and on one whose requests fail.\<close>

theorem es_unavailable_returns_typed_results_witness:
  "map_sum id fst (es_add_document (example_es_db None) example_document example_processor 0) = Inr 0
   \<and> fst (es_search_similar_chunks id example_engine (example_es_db None) ''x'' 10 None None True 0) = []
   \<and> es_delete_document (example_es_db None) ''d'' = (False, example_es_db None)
   \<and> map_sum id fst (es_add_document
        (example_es_db (Some \<lparr>es_fail = Some ConnectionError, es_docs = [(''a'', example_source ''a'')]\<rparr>))
        example_document example_processor 0) = Inr 0
   \<and> fst (es_search_similar_chunks id example_engine
        (example_es_db (Some \<lparr>es_fail = Some ConnectionError, es_docs = [(''a'', example_source ''a'')]\<rparr>))
        ''x'' 10 None None True 0) = []
   \<and> es_delete_document
        (example_es_db (Some \<lparr>es_fail = Some ConnectionError, es_docs = [(''a'', example_source ''a'')]\<rparr>)) ''d''
       = (False, example_es_db (Some \<lparr>es_fail = Some ConnectionError, es_docs = [(''a'', example_source ''a'')]\<rparr>))"
proof -
  let ?down = "example_es_db (Some \<lparr>es_fail = Some ConnectionError, es_docs = [(''a'', example_source ''a'')]\<rparr>)"
  have 1: "es (example_es_db None) = None
           \<or> (\<exists>client e. es (example_es_db None) = Some client \<and> es_fail client = Some e)"
    by (simp add: example_es_db_def)
  have 2: "es ?down = None \<or> (\<exists>client e. es ?down = Some client \<and> es_fail client = Some e)"
    by (simp add: example_es_db_def)
  from es_unavailable_returns_typed_results [OF 1, of example_document example_processor 0 id example_engine "''x''" 10 None None True "''d''"]
    es_unavailable_returns_typed_results [OF 2, of example_document example_processor 0 id example_engine "''x''" 10 None None True "''d''"]
  show ?thesis by auto
qed

end
